theory Spec2Isabelle
  imports Main "HOL-Library.AList"
begin

section \<open>Python values, dictionaries and errors\<close>

text \<open>
  The module \<^verbatim>\<open>oemof/core/energy_system.py\<close> moves Python objects around without
  looking inside most of them.  A value is \<^verbatim>\<open>None\<close>, a boolean, an integer, a string, a
  tuple, a list, a dictionary, an instance of a class (the qualified name of the class
  and the instance's \<^verbatim>\<open>__dict__\<close>), a class (its module and its name), or some other
  object known only by name (a pandas index, a function).
  Objects are values here: two references to one entity are two equal values.  The
  containers, whose identity the code depends on, live in a heap (see below).
  A character of a string stands for one code point; the type has those below 256.
\<close>

datatype pyval =
    PNone
  | PBool bool
  | PInt int
  | PStr string
  | PTuple "pyval list"
  | PList "pyval list"
  | PDict "(pyval \<times> pyval) list"
  | PObj string "(string \<times> pyval) list"
  | PClass string string
  | POpaque string

text \<open>
  A dictionary with string keys (\<^verbatim>\<open>**kwargs\<close>, an instance's \<^verbatim>\<open>__dict__\<close>) is an
  association list in insertion order; \<open>AList.update\<close> overwrites a key in place and
  appends a new one, as a Python dictionary does.
\<close>

type_synonym pydict = "(string \<times> pyval) list"

datatype error =
    ValueError string
  | TypeError string
  | AttributeError string
  | FileNotFoundError string
  | FileExistsError string
  | IsADirectoryError string
  | PermissionError string
  | UnpicklingError string

text \<open>\<^verbatim>\<open>d.get(key, default)\<close>; \<^verbatim>\<open>d.get(key)\<close> is \<open>dict_get d key PNone\<close>.\<close>

definition dict_get :: "pydict \<Rightarrow> string \<Rightarrow> pyval \<Rightarrow> pyval" where
  "dict_get d key dflt = (case map_of d key of None \<Rightarrow> dflt | Some v \<Rightarrow> v)"

text \<open>\<^verbatim>\<open>setattr(self, name, v)\<close> on the \<^verbatim>\<open>__dict__\<close> of \<^verbatim>\<open>self\<close>.\<close>

definition set_attr :: "string \<Rightarrow> pyval \<Rightarrow> pydict \<Rightarrow> pydict" where
  "set_attr attr v d = AList.update attr v d"

text \<open>
  \<^verbatim>\<open>obj.name\<close> on a value: an instance answers from its \<^verbatim>\<open>__dict__\<close>; a list, a
  string, \<^verbatim>\<open>None\<close> and the like have none of the attributes this module reads.
\<close>

definition short_name :: "string \<Rightarrow> string" where
  "short_name q = rev (takeWhile (\<lambda>c. c \<noteq> CHR ''.'') (rev q))"

definition type_name :: "pyval \<Rightarrow> string" where
  "type_name v =
     (case v of
        PNone \<Rightarrow> ''NoneType'' | PBool _ \<Rightarrow> ''bool'' | PInt _ \<Rightarrow> ''int''
      | PStr _ \<Rightarrow> ''str'' | PTuple _ \<Rightarrow> ''tuple'' | PList _ \<Rightarrow> ''list''
      | PDict _ \<Rightarrow> ''dict'' | PObj c _ \<Rightarrow> short_name c | PClass _ _ \<Rightarrow> ''type''
      | POpaque c \<Rightarrow> c)"

definition no_attribute :: "pyval \<Rightarrow> string \<Rightarrow> error" where
  "no_attribute v attr =
     AttributeError ([CHR 0x27] @ type_name v @ [CHR 0x27] @ '' object has no attribute ''
                     @ [CHR 0x27] @ attr @ [CHR 0x27])"

definition get_attr :: "pyval \<Rightarrow> string \<Rightarrow> error + pyval" where
  "get_attr v attr =
     (case v of
        PObj c d \<Rightarrow> (case map_of d attr of None \<Rightarrow> Inl (no_attribute v attr) | Some x \<Rightarrow> Inr x)
      | _ \<Rightarrow> Inl (no_attribute v attr))"

section \<open>Simulation\<close>

text \<open>
  \<^verbatim>\<open>Simulation.__init__(self, **kwargs)\<close>: nine attributes are read from the keyword
  arguments with their defaults, in the order of the source, and then the constructor
  raises \<^verbatim>\<open>ValueError\<close> if \<^verbatim>\<open>self.timesteps is None\<close>.
\<close>

definition Simulation_init :: "pydict \<Rightarrow> error + pyval" where
  "Simulation_init kwargs =
     (let self = [];
          self = set_attr ''solver'' (dict_get kwargs ''solver'' (PStr ''glpk'')) self;
          self = set_attr ''debug'' (dict_get kwargs ''debug'' (PBool False)) self;
          self = set_attr ''verbose'' (dict_get kwargs ''verbose'' (PBool False)) self;
          self = set_attr ''objective_options''
                   (dict_get kwargs ''objective_options'' (PDict [])) self;
          self = set_attr ''duals'' (dict_get kwargs ''duals'' (PBool False)) self;
          self = set_attr ''timesteps'' (dict_get kwargs ''timesteps'' PNone) self;
          self = set_attr ''relaxed'' (dict_get kwargs ''relaxed'' (PBool False)) self;
          self = set_attr ''fast_build'' (dict_get kwargs ''fast_build'' (PBool False)) self;
          self = set_attr ''solve_kwargs'' (dict_get kwargs ''solve_kwargs'' (PDict [])) self
      in if dict_get self ''timesteps'' PNone = PNone
         then Inl (ValueError ''No timesteps defined!'')
         else Inr (PObj ''oemof.core.energy_system.Simulation'' self))"


section \<open>The world outside the objects\<close>

text \<open>
  What the methods change besides their own object: the containers by reference (the
  \<^verbatim>\<open>__dict__\<close> of each \<^verbatim>\<open>EnergySystem\<close>; a reference never handed out has the empty
  dictionary), the class attribute \<^verbatim>\<open>Entity.registry\<close>, the file system, the value of
  \<^verbatim>\<open>os.path.expanduser("~")\<close> and the calls made to \<^verbatim>\<open>logging\<close>.

  A file holds a pickled \<^verbatim>\<open>__dict__\<close> or bytes that are no pickle.  Every value of
  \<open>pyval\<close> is taken to pickle and to load back as an equal value.  A path is the
  string the program builds; two spellings of one path are two paths, and the empty
  path is the current directory.
\<close>

datatype content = Snapshot pydict | Garbage

record filesystem =
  dirs :: "string list"
  files :: "(string \<times> content) list"
  readonly :: "string list"

record world =
  heap :: "nat \<Rightarrow> pydict"
  next_ref :: nat
  registry :: "nat option"
  fsys :: filesystem
  home :: string
  logged :: "(string \<times> string) list"

definition logging :: "string \<Rightarrow> string \<Rightarrow> world \<Rightarrow> world" where
  "logging level msg w = w\<lparr>logged := logged w @ [(level, msg)]\<rparr>"

subsection \<open>\<^verbatim>\<open>os.path\<close> and the file operations\<close>

text \<open>\<^verbatim>\<open>posixpath.join(a, *p)\<close>: an absolute component starts over.\<close>

definition join2 :: "string \<Rightarrow> string \<Rightarrow> string" where
  "join2 path b =
     (if take 1 b = ''/'' then b
      else if path = [] \<or> last path = CHR ''/'' then path @ b
      else path @ ''/'' @ b)"

definition os_path_join :: "string \<Rightarrow> string list \<Rightarrow> string" where
  "os_path_join a p = foldl join2 a p"

text \<open>
  \<^verbatim>\<open>posixpath.dirname(p)\<close>: everything up to the last slash, without its trailing
  slashes unless it consists of slashes only.
\<close>

definition dirname :: "string \<Rightarrow> string" where
  "dirname p =
     (let head = rev (dropWhile (\<lambda>c. c \<noteq> CHR ''/'') (rev p))
      in if head \<noteq> [] \<and> \<not> list_all (\<lambda>c. c = CHR ''/'') head
         then rev (dropWhile (\<lambda>c. c = CHR ''/'') (rev head))
         else head)"

definition isdir :: "string \<Rightarrow> filesystem \<Rightarrow> bool" where
  "isdir p fs = (p \<in> set (dirs fs))"

definition isfile :: "string \<Rightarrow> filesystem \<Rightarrow> bool" where
  "isfile p fs = (map_of (files fs) p \<noteq> None)"

text \<open>
  \<^verbatim>\<open>os.mkdir(p)\<close> makes one directory: its parent must be a directory, \<open>p\<close> must not
  exist, and the parent must be writable.
\<close>

definition mkdir :: "string \<Rightarrow> filesystem \<Rightarrow> error + filesystem" where
  "mkdir p fs =
     (if \<not> isdir (dirname p) fs then Inl (FileNotFoundError p)
      else if isdir p fs \<or> isfile p fs then Inl (FileExistsError p)
      else if dirname p \<in> set (readonly fs) then Inl (PermissionError p)
      else Inr (fs\<lparr>dirs := dirs fs @ [p]\<rparr>))"

text \<open>
  \<^verbatim>\<open>pickle.dump(obj, open(p, 'wb'))\<close>: the file is created or overwritten.  Opening fails
  when the directory is missing, when \<open>p\<close> is a directory, and when the file (or, for a
  new file, its directory) is not writable.
\<close>

definition write_file :: "string \<Rightarrow> content \<Rightarrow> filesystem \<Rightarrow> error + filesystem" where
  "write_file p c fs =
     (if \<not> isdir (dirname p) fs then Inl (FileNotFoundError p)
      else if isdir p fs then Inl (IsADirectoryError p)
      else if isfile p fs \<and> p \<in> set (readonly fs) then Inl (PermissionError p)
      else if \<not> isfile p fs \<and> dirname p \<in> set (readonly fs) then Inl (PermissionError p)
      else Inr (fs\<lparr>files := AList.update p c (files fs)\<rparr>))"

text \<open>\<^verbatim>\<open>pickle.load(open(p, 'rb'))\<close>.\<close>

definition read_file :: "string \<Rightarrow> filesystem \<Rightarrow> error + content" where
  "read_file p fs =
     (if isdir p fs then Inl (IsADirectoryError p)
      else case map_of (files fs) p of
             None \<Rightarrow> Inl (FileNotFoundError p)
           | Some c \<Rightarrow> Inr c)"

definition pickle_load :: "content \<Rightarrow> error + pydict" where
  "pickle_load c =
     (case c of Snapshot d \<Rightarrow> Inr d | Garbage \<Rightarrow> Inl (UnpicklingError ''invalid load key''))"

section \<open>EnergySystem\<close>

subsection \<open>Construction\<close>

text \<open>
  \<^verbatim>\<open>EnergySystem.__init__(self, **kwargs)\<close>.  The new object gets the next reference; the
  three list attributes are set in the order of the source's loop, then the class
  attribute \<^verbatim>\<open>Entity.registry\<close> is set to the new object, then \<^verbatim>\<open>results\<close> and
  \<^verbatim>\<open>time_idx\<close>.  The result is the reference and the new world.
\<close>

definition EnergySystem_init :: "pydict \<Rightarrow> world \<Rightarrow> nat \<times> world" where
  "EnergySystem_init kwargs w =
     (let self = next_ref w;
          d = fold (\<lambda>attribute. set_attr attribute (dict_get kwargs attribute (PList [])))
                [''regions'', ''entities'', ''simulation''] [];
          w = w\<lparr>next_ref := Suc self, registry := Some self\<rparr>;
          d = set_attr ''results'' (dict_get kwargs ''results'' PNone) d;
          d = set_attr ''time_idx'' (dict_get kwargs ''time_idx'' PNone) d
      in (self, w\<lparr>heap := (heap w)(self := d)\<rparr>))"

text \<open>A client that constructs one container after another.\<close>

fun construct_all :: "pydict list \<Rightarrow> world \<Rightarrow> nat list \<times> world" where
  "construct_all [] w = ([], w)"
| "construct_all (kwargs # rest) w =
     (let (r, w1) = EnergySystem_init kwargs w;
          (rs, w2) = construct_all rest w1
      in (r # rs, w2))"

subsection \<open>Entities and \<^verbatim>\<open>connect\<close>\<close>

text \<open>
  Modelled from the spec: the class \<^verbatim>\<open>Entity\<close> and its subclasses
  (\<^verbatim>\<open>oemof.core.network\<close>, among them \<^verbatim>\<open>transports.Simple\<close>) are not among the sources.
  The spec says that a newly constructed entity attaches itself to the container
  currently set as the active registry, and that the container's entity list is in
  registration order.  So the constructor makes an instance carrying its keyword
  arguments and appends it to the \<^verbatim>\<open>entities\<close> list of the active registry; with no
  active registry, or one whose \<^verbatim>\<open>entities\<close> attribute is no list, nothing is attached.
\<close>

definition class_qualname :: "pyval \<Rightarrow> string" where
  "class_qualname c = (case c of PClass m n \<Rightarrow> m @ ''.'' @ n | _ \<Rightarrow> type_name c)"

definition Entity_init :: "pyval \<Rightarrow> pydict \<Rightarrow> world \<Rightarrow> pyval \<times> world" where
  "Entity_init cls kwargs w =
     (let self = PObj (class_qualname cls) kwargs
      in (self,
          case registry w of
            None \<Rightarrow> w
          | Some r \<Rightarrow>
              (case map_of (heap w r) ''entities'' of
                 Some (PList es) \<Rightarrow>
                   w\<lparr>heap := (heap w)(r := set_attr ''entities'' (PList (es @ [self])) (heap w r))\<rparr>
               | _ \<Rightarrow> w)))"

text \<open>The class \<^verbatim>\<open>transport.Simple\<close> of the source's import, and \<^verbatim>\<open>str\<close> of a class.\<close>

definition transport_Simple :: pyval where
  "transport_Simple = PClass ''oemof.core.network.entities.components.transports'' ''Simple''"

definition str_class :: "pyval \<Rightarrow> string" where
  "str_class c = ''<class '' @ [CHR 0x27] @ class_qualname c @ [CHR 0x27] @ ''>''"

text \<open>\<^verbatim>\<open>t + x\<close> for a tuple \<open>t\<close>: only a tuple can be added to a tuple.\<close>

definition tuple_add :: "pyval list \<Rightarrow> pyval \<Rightarrow> error + pyval list" where
  "tuple_add t x =
     (case x of
        PTuple ys \<Rightarrow> Inr (t @ ys)
      | _ \<Rightarrow> Inl (TypeError (''can only concatenate tuple (not '' @ [CHR 0x22] @ type_name x
                               @ [CHR 0x22] @ '') to tuple'')))"

text \<open>
  The loop of \<^verbatim>\<open>connect\<close> over the pairs \<^verbatim>\<open>(bus_a, bus_b)\<close>: the uid is
  \<^verbatim>\<open>('transport',) + bus_a.uid + bus_b.uid\<close>, evaluated left to right, and the transport
  is constructed with \<^verbatim>\<open>outputs=[bus_a]\<close> and \<^verbatim>\<open>inputs=[bus_b]\<close>.  An error leaves the
  loop with the world as it is then.
\<close>

fun connect_loop ::
  "(pyval \<times> pyval) list \<Rightarrow> pyval \<Rightarrow> pyval \<Rightarrow> pyval \<Rightarrow> pyval \<Rightarrow> world \<Rightarrow> (error + unit) \<times> world"
where
  "connect_loop [] in_max out_max eta transport_class w = (Inr (), w)"
| "connect_loop ((bus_a, bus_b) # rest) in_max out_max eta transport_class w =
     (case get_attr bus_a ''uid'' of
        Inl e \<Rightarrow> (Inl e, w)
      | Inr uid_a \<Rightarrow>
     (case tuple_add [PStr ''transport''] uid_a of
        Inl e \<Rightarrow> (Inl e, w)
      | Inr t \<Rightarrow>
     (case get_attr bus_b ''uid'' of
        Inl e \<Rightarrow> (Inl e, w)
      | Inr uid_b \<Rightarrow>
     (case tuple_add t uid_b of
        Inl e \<Rightarrow> (Inl e, w)
      | Inr uid \<Rightarrow>
          connect_loop rest in_max out_max eta transport_class
            (snd (Entity_init transport_class
                    [(''uid'', PTuple uid), (''outputs'', PList [bus_a]),
                     (''inputs'', PList [bus_b]), (''out_max'', PList [out_max]),
                     (''in_max'', PList [in_max]), (''eta'', PList [eta])] w))))))"

definition connect ::
  "nat \<Rightarrow> pyval \<Rightarrow> pyval \<Rightarrow> pyval \<Rightarrow> pyval \<Rightarrow> pyval \<Rightarrow> pyval \<Rightarrow> world \<Rightarrow> (error + unit) \<times> world"
where
  "connect self bus1 bus2 in_max out_max eta transport_class w =
     (if \<not> transport_class = transport_Simple then
        (Inl (TypeError (''Sorry, `EnergySystem.connect` currently only works with''
                         @ ''a `transport_class` argument of'' @ str_class transport_Simple)),
         logging ''error'' [] w)
      else connect_loop [(bus1, bus2), (bus2, bus1)] in_max out_max eta transport_class w)"

subsection \<open>\<^verbatim>\<open>optimize\<close>\<close>

text \<open>
  Modelled from the spec: the class \<^verbatim>\<open>OptimizationModel\<close>
  (\<^verbatim>\<open>oemof.solph.optimization_model\<close>, imported as \<^verbatim>\<open>OM\<close>) is not among the sources.
  It is a parameter of \<^verbatim>\<open>optimize\<close>: its constructor \<^verbatim>\<open>OM(energysystem=self)\<close>, its
  \<^verbatim>\<open>solve\<close> with the five keyword arguments of the call, and its \<^verbatim>\<open>results()\<close>, each of
  which may raise.  The spec has the compiler consume the container and return a results
  mapping, so the three operations read the world and change the model only.  A model is a
  value: what \<^verbatim>\<open>solve\<close> does to a model the caller passed in is not visible afterwards.
\<close>

record 'm compiler =
  OM_init :: "nat \<Rightarrow> world \<Rightarrow> error + 'm"
  OM_solve :: "'m \<Rightarrow> pyval \<Rightarrow> pyval \<Rightarrow> pyval \<Rightarrow> pyval \<Rightarrow> pyval \<Rightarrow> error + 'm"
  OM_results :: "'m \<Rightarrow> error + pyval"

text \<open>The container \<open>self\<close> as a value, for \<^verbatim>\<open>self.simulation.solver\<close> and the like.\<close>

definition self_obj :: "world \<Rightarrow> nat \<Rightarrow> pyval" where
  "self_obj w self = PObj ''oemof.core.energy_system.EnergySystem'' (heap w self)"

definition get_attr2 :: "pyval \<Rightarrow> string \<Rightarrow> string \<Rightarrow> error + pyval" where
  "get_attr2 v a b = (case get_attr v a of Inl e \<Rightarrow> Inl e | Inr x \<Rightarrow> get_attr x b)"

text \<open>
  \<^verbatim>\<open>optimize(self, om=None)\<close>: the model is constructed if none is given; the arguments of
  \<^verbatim>\<open>solve\<close> are evaluated in the order written; \<^verbatim>\<open>self.results\<close> is assigned after
  \<^verbatim>\<open>om.results()\<close> has returned; the result is \<^verbatim>\<open>self\<close>.
\<close>

definition optimize ::
  "'m compiler \<Rightarrow> nat \<Rightarrow> 'm option \<Rightarrow> world \<Rightarrow> (error + nat) \<times> world"
where
  "optimize OM self om w =
     (case (case om of None \<Rightarrow> OM_init OM self w | Some m \<Rightarrow> Inr m) of
        Inl e \<Rightarrow> (Inl e, w)
      | Inr om \<Rightarrow>
     (case get_attr2 (self_obj w self) ''simulation'' ''solver'' of
        Inl e \<Rightarrow> (Inl e, w)
      | Inr solver \<Rightarrow>
     (case get_attr2 (self_obj w self) ''simulation'' ''debug'' of
        Inl e \<Rightarrow> (Inl e, w)
      | Inr debug \<Rightarrow>
     (case get_attr2 (self_obj w self) ''simulation'' ''verbose'' of
        Inl e \<Rightarrow> (Inl e, w)
      | Inr verbose \<Rightarrow>
     (case get_attr2 (self_obj w self) ''simulation'' ''duals'' of
        Inl e \<Rightarrow> (Inl e, w)
      | Inr duals \<Rightarrow>
     (case get_attr2 (self_obj w self) ''simulation'' ''solve_kwargs'' of
        Inl e \<Rightarrow> (Inl e, w)
      | Inr solve_kwargs \<Rightarrow>
     (case OM_solve OM om solver debug verbose duals solve_kwargs of
        Inl e \<Rightarrow> (Inl e, w)
      | Inr om \<Rightarrow>
     (case OM_results OM om of
        Inl e \<Rightarrow> (Inl e, w)
      | Inr r \<Rightarrow>
          (Inr self, w\<lparr>heap := (heap w)(self := set_attr ''results'' r (heap w self))\<rparr>)))))))))"

text \<open>
  Two compilers to run \<^verbatim>\<open>optimize\<close> with: one whose \<^verbatim>\<open>solve\<close> keeps the arguments it was
  called with and whose \<^verbatim>\<open>results()\<close> returns them as a list, and one whose \<^verbatim>\<open>solve\<close>
  raises.
\<close>

definition echo_compiler :: "pyval list compiler" where
  "echo_compiler =
     \<lparr>OM_init = (\<lambda>self w. Inr []),
      OM_solve = (\<lambda>m solver debug verbose duals solve_kwargs.
                    Inr [solver, debug, verbose, duals, solve_kwargs]),
      OM_results = (\<lambda>m. Inr (PList m))\<rparr>"

definition failing_compiler :: "error \<Rightarrow> unit compiler" where
  "failing_compiler e =
     \<lparr>OM_init = (\<lambda>self w. Inr ()),
      OM_solve = (\<lambda>m solver debug verbose duals solve_kwargs. Inl e),
      OM_results = (\<lambda>m. Inr (PDict []))\<rparr>"

subsection \<open>\<^verbatim>\<open>dump\<close> and \<^verbatim>\<open>restore\<close>\<close>

text \<open>
  \<^verbatim>\<open>dump(self, dpath=None, filename=None, keep_weather=True)\<close>; the source never reads
  \<^verbatim>\<open>keep_weather\<close>.  Without \<^verbatim>\<open>dpath\<close>, the two directories are made one after the other,
  each only when \<^verbatim>\<open>os.path.isdir\<close> says it is missing.  The method returns the message it
  logs.  An error leaves the file system as it is at that point.
\<close>

definition dump ::
  "nat \<Rightarrow> string option \<Rightarrow> string option \<Rightarrow> world \<Rightarrow> (error + string) \<times> world"
where
  "dump self dpath filename w =
     (case (case dpath of
              Some p \<Rightarrow> (Inr p, w)
            | None \<Rightarrow>
                (let bpath = os_path_join (home w) [''.oemof'']
                 in case (if \<not> isdir bpath (fsys w) then mkdir bpath (fsys w) else Inr (fsys w)) of
                      Inl e \<Rightarrow> (Inl e, w)
                    | Inr fs1 \<Rightarrow>
                        (let dpath = os_path_join bpath [''dumps'']
                         in case (if \<not> isdir dpath fs1 then mkdir dpath fs1 else Inr fs1) of
                              Inl e \<Rightarrow> (Inl e, w\<lparr>fsys := fs1\<rparr>)
                            | Inr fs2 \<Rightarrow> (Inr dpath, w\<lparr>fsys := fs2\<rparr>)))) of
        (Inl e, w1) \<Rightarrow> (Inl e, w1)
      | (Inr dpath, w1) \<Rightarrow>
          (let filename = (case filename of None \<Rightarrow> ''es_dump.oemof'' | Some f \<Rightarrow> f);
               path = os_path_join dpath [filename]
           in case write_file path (Snapshot (heap w1 self)) (fsys w1) of
                Inl e \<Rightarrow> (Inl e, w1)
              | Inr fs \<Rightarrow>
                  (let msg = ''Attributes dumped to: '' @ path
                   in (Inr msg, logging ''debug'' msg (w1\<lparr>fsys := fs\<rparr>)))))"

text \<open>
  \<^verbatim>\<open>restore(self, dpath=None, filename=None)\<close>: the loaded dictionary becomes the
  \<^verbatim>\<open>__dict__\<close> of \<^verbatim>\<open>self\<close>.
\<close>

definition restore ::
  "nat \<Rightarrow> string option \<Rightarrow> string option \<Rightarrow> world \<Rightarrow> (error + string) \<times> world"
where
  "restore self dpath filename w =
     (let w = logging ''info'' ''Restoring attributes will overwrite existing attributes.'' w;
          dpath = (case dpath of
                     None \<Rightarrow> os_path_join (home w) [''.oemof'', ''dumps'']
                   | Some p \<Rightarrow> p);
          filename = (case filename of None \<Rightarrow> ''es_dump.oemof'' | Some f \<Rightarrow> f);
          path = os_path_join dpath [filename]
      in case read_file path (fsys w) of
           Inl e \<Rightarrow> (Inl e, w)
         | Inr c \<Rightarrow>
             (case pickle_load c of
                Inl e \<Rightarrow> (Inl e, w)
              | Inr d \<Rightarrow>
                  (let msg = ''Attributes restored from: '' @ path
                   in (Inr msg, logging ''debug'' msg (w\<lparr>heap := (heap w)(self := d)\<rparr>)))))"

text \<open>
  A world to run the operations in: no container yet, no active registry, the home
  directory \<^verbatim>\<open>/home/user\<close> and nothing below it.
\<close>

definition world0 :: world where
  "world0 =
     \<lparr>heap = (\<lambda>_. []), next_ref = 0, registry = None,
      fsys = \<lparr>dirs = [''/'', ''/home'', ''/home/user''], files = [], readonly = []\<rparr>,
      home = ''/home/user'', logged = []\<rparr>"

section \<open>Region\<close>

text \<open>
  A region is a value of its own; \<open>private_code\<close> is the attribute \<^verbatim>\<open>_code\<close>.
  \<^verbatim>\<open>add_entities\<close> extends the region's list and then, for each entity, evaluates
  \<^verbatim>\<open>self not in entity.regions\<close> and appends the region to that list.  The entity's list
  belongs to the entity, whose class is not among the sources, and a value cannot refer
  back to the region that holds it: the model keeps the errors of that loop and not the
  back reference.
\<close>

record region =
  entities :: "pyval list"
  name :: pyval
  geom :: pyval
  private_code :: pyval

definition not_iterable :: "pyval \<Rightarrow> error" where
  "not_iterable v = TypeError ([CHR 0x27] @ type_name v @ [CHR 0x27] @ '' object is not iterable'')"

definition iterate :: "pyval \<Rightarrow> error + pyval list" where
  "iterate v =
     (case v of
        PList xs \<Rightarrow> Inr xs
      | PTuple xs \<Rightarrow> Inr xs
      | PStr s \<Rightarrow> Inr (map (\<lambda>c. PStr [c]) s)
      | PDict kvs \<Rightarrow> Inr (map fst kvs)
      | _ \<Rightarrow> Inl (not_iterable v))"

definition append_region :: "pyval \<Rightarrow> error + unit" where
  "append_region entity =
     (case get_attr entity ''regions'' of
        Inl e \<Rightarrow> Inl e
      | Inr (PList rs) \<Rightarrow> Inr ()
      | Inr (PTuple rs) \<Rightarrow> Inl (no_attribute (PTuple rs) ''append'')
      | Inr (PDict kvs) \<Rightarrow> Inl (no_attribute (PDict kvs) ''append'')
      | Inr v \<Rightarrow> Inl (not_iterable v))"

fun append_regions :: "pyval list \<Rightarrow> error + unit" where
  "append_regions [] = Inr ()"
| "append_regions (entity # rest) =
     (case append_region entity of Inl e \<Rightarrow> Inl e | Inr _ \<Rightarrow> append_regions rest)"

definition add_entities :: "pyval \<Rightarrow> region \<Rightarrow> (error + unit) \<times> region" where
  "add_entities ents self =
     (case iterate ents of
        Inl e \<Rightarrow> (Inl e, self)
      | Inr xs \<Rightarrow> (append_regions xs, self\<lparr>entities := entities self @ xs\<rparr>))"

text \<open>\<^verbatim>\<open>Region.__init__(self, **kwargs)\<close>.\<close>

definition Region_init :: "pydict \<Rightarrow> error + region" where
  "Region_init kwargs =
     (case add_entities (dict_get kwargs ''entities'' (PList []))
             \<lparr>entities = [], name = PNone, geom = PNone, private_code = PNone\<rparr> of
        (Inl e, self) \<Rightarrow> Inl e
      | (Inr _, self) \<Rightarrow>
          Inr (self\<lparr>name := dict_get kwargs ''name'' PNone,
                    geom := dict_get kwargs ''geom'' PNone,
                    private_code := dict_get kwargs ''code'' PNone\<rparr>))"

subsection \<open>The property \<^verbatim>\<open>code\<close>\<close>

text \<open>
  \<^verbatim>\<open>s.upper()\<close> is a method of Python's built-in strings and no code of this module: it
  is the parameter \<open>str_upper\<close> of the property below, and nothing is assumed of it.  By
  Python's case table it may give more characters than it gets (the sharp s gives
  \<^verbatim>\<open>SS\<close>).  On a string of ASCII characters it is \<open>ascii_upper\<close>, which the examples
  on ASCII names are run with.
\<close>

definition upper_char :: "char \<Rightarrow> char" where
  "upper_char c =
     (if 97 \<le> (of_char c :: nat) \<and> (of_char c :: nat) \<le> 122
      then (case c of Char b0 b1 b2 b3 b4 b5 b6 b7 \<Rightarrow> Char b0 b1 b2 b3 b4 False b6 b7)
      else c)"

definition ascii_upper :: "string \<Rightarrow> string" where
  "ascii_upper s = map upper_char s"

text \<open>\<^verbatim>\<open>s.replace(old, new)\<close> for single characters.\<close>

definition replace_char :: "char \<Rightarrow> char \<Rightarrow> string \<Rightarrow> string" where
  "replace_char old new s = map (\<lambda>c. if c = old then new else c) s"

text \<open>\<^verbatim>\<open>s.split(' ', 1)\<close>: at most one split, at the first space.\<close>

definition split1 :: "string \<Rightarrow> string list" where
  "split1 s =
     (case dropWhile (\<lambda>c. c \<noteq> CHR '' '') s of
        [] \<Rightarrow> [s]
      | _ # rest \<Rightarrow> [takeWhile (\<lambda>c. c \<noteq> CHR '' '') s, rest])"

text \<open>\<^verbatim>\<open>part[:1].upper() + part[1:3]\<close>.\<close>

definition abbreviate :: "(string \<Rightarrow> string) \<Rightarrow> string \<Rightarrow> string" where
  "abbreviate str_upper part = str_upper (take 1 part) @ take 2 (drop 1 part)"

text \<open>
  The property: with \<^verbatim>\<open>_code\<close> set, it is returned; otherwise the code is built from
  the name, stored in \<^verbatim>\<open>_code\<close> and returned.  A name that is no string has no
  \<^verbatim>\<open>replace\<close>.
\<close>

definition Region_code :: "(string \<Rightarrow> string) \<Rightarrow> region \<Rightarrow> (error + pyval) \<times> region" where
  "Region_code str_upper self =
     (if private_code self = PNone then
        (case name self of
           PStr s \<Rightarrow>
             (let name_parts = split1 (replace_char (CHR ''_'') (CHR '' '') s);
                  c = foldl (\<lambda>acc part. acc @ abbreviate str_upper part) [] name_parts
              in (Inr (PStr c), self\<lparr>private_code := PStr c\<rparr>))
         | v \<Rightarrow> (Inl (no_attribute v ''replace''), self))
      else (Inr (private_code self), self))"

text \<open>
  The spec's wording of the code, to compare with: the name is cut at whitespace into
  segments, and every segment gives its first one to three characters, the first one
  in upper case.  Whitespace is what Python's \<^verbatim>\<open>str.split()\<close> cuts at.
\<close>

definition is_space :: "char \<Rightarrow> bool" where
  "is_space c =
     (c \<in> set [CHR '' '', CHR 0x09, CHR 0x0A, CHR 0x0B, CHR 0x0C, CHR 0x0D,
               CHR 0x1C, CHR 0x1D, CHR 0x1E, CHR 0x1F, CHR 0x85, CHR 0xA0])"

fun segments :: "string \<Rightarrow> string \<Rightarrow> string list" where
  "segments cur [] = (if cur = [] then [] else [cur])"
| "segments cur (c # cs) =
     (if is_space c then (if cur = [] then segments [] cs else cur # segments [] cs)
      else segments (cur @ [c]) cs)"

definition spec_code :: "(string \<Rightarrow> string) \<Rightarrow> string \<Rightarrow> string" where
  "spec_code str_upper s = concat (map (abbreviate str_upper) (segments [] s))"

section \<open>Properties of \<^verbatim>\<open>Simulation\<close>\<close>

text \<open>
  C1, as the code has it.  The constructor raises \<^verbatim>\<open>ValueError\<close> exactly when the keyword
  \<^verbatim>\<open>timesteps\<close> is absent or is \<^verbatim>\<open>None\<close>.  Whenever it returns, the attribute
  \<^verbatim>\<open>timesteps\<close> of the new object is the value that was passed, and that value is not
  \<^verbatim>\<open>None\<close>.  Nothing is said about the length of the sequence: the only test of the
  source is \<^verbatim>\<open>self.timesteps is None\<close>.
\<close>

theorem Simulation_init_timesteps:
  "(dict_get kwargs ''timesteps'' PNone = PNone \<longrightarrow>
      Simulation_init kwargs = Inl (ValueError ''No timesteps defined!''))
   \<and> (dict_get kwargs ''timesteps'' PNone \<noteq> PNone \<longrightarrow>
        (\<exists>sim. Simulation_init kwargs = Inr sim))
   \<and> (\<forall>sim. Simulation_init kwargs = Inr sim \<longrightarrow>
        get_attr sim ''timesteps'' = Inr (dict_get kwargs ''timesteps'' PNone)
        \<and> dict_get kwargs ''timesteps'' PNone \<noteq> PNone)"
  by (auto simp add: Simulation_init_def set_attr_def dict_get_def get_attr_def)

theorem Simulation_init_timesteps_witness:
  "Simulation_init [] = Inl (ValueError ''No timesteps defined!'')
   \<and> Simulation_init [(''timesteps'', PNone)] = Inl (ValueError ''No timesteps defined!'')
   \<and> (\<exists>sim. Simulation_init [(''timesteps'', PList [PInt 0, PInt 1, PInt 2])] = Inr sim
        \<and> get_attr sim ''timesteps'' = Inr (PList [PInt 0, PInt 1, PInt 2]))"
  using Simulation_init_timesteps [of "[]"]
        Simulation_init_timesteps [of "[(''timesteps'', PNone)]"]
        Simulation_init_timesteps [of "[(''timesteps'', PList [PInt 0, PInt 1, PInt 2])]"]
  by (auto simp add: dict_get_def)

text \<open>
  C1 as the spec states it fails: \<^verbatim>\<open>Simulation(timesteps=[])\<close> is constructed, and its
  timestep sequence is empty.
\<close>

theorem Simulation_empty_timesteps_counterexample:
  "Simulation_init [(''timesteps'', PList [])] =
     Inr (PObj ''oemof.core.energy_system.Simulation''
            [(''solver'', PStr ''glpk''), (''debug'', PBool False), (''verbose'', PBool False),
             (''objective_options'', PDict []), (''duals'', PBool False),
             (''timesteps'', PList []), (''relaxed'', PBool False),
             (''fast_build'', PBool False), (''solve_kwargs'', PDict [])])"
  by (simp add: Simulation_init_def set_attr_def dict_get_def)

section \<open>Properties of the construction of \<^verbatim>\<open>EnergySystem\<close>\<close>

lemma EnergySystem_init_fst: "fst (EnergySystem_init kwargs w) = next_ref w"
  by (simp add: EnergySystem_init_def Let_def)

lemma EnergySystem_init_registry:
  "registry (snd (EnergySystem_init kwargs w)) = Some (next_ref w)"
  by (simp add: EnergySystem_init_def Let_def)

lemma EnergySystem_init_next_ref:
  "next_ref (snd (EnergySystem_init kwargs w)) = Suc (next_ref w)"
  by (simp add: EnergySystem_init_def Let_def)

lemma EnergySystem_init_heap:
  "heap (snd (EnergySystem_init kwargs w)) =
     (heap w)(next_ref w :=
        [(''regions'', dict_get kwargs ''regions'' (PList [])),
         (''entities'', dict_get kwargs ''entities'' (PList [])),
         (''simulation'', dict_get kwargs ''simulation'' (PList [])),
         (''results'', dict_get kwargs ''results'' PNone),
         (''time_idx'', dict_get kwargs ''time_idx'' PNone)])"
  by (simp add: EnergySystem_init_def Let_def set_attr_def)

text \<open>The references handed out by a run of constructions are consecutive.\<close>

lemma construct_all_refs:
  "fst (construct_all kws w) = [next_ref w ..< next_ref w + length kws]"
proof (induction kws arbitrary: w)
  case Nil
  show ?case by simp
next
  case (Cons kw kws)
  have "fst (construct_all (kw # kws) w)
          = next_ref w # fst (construct_all kws (snd (EnergySystem_init kw w)))"
    by (simp add: split_beta Let_def EnergySystem_init_fst)
  also have "\<dots> = next_ref w # [Suc (next_ref w) ..< Suc (next_ref w) + length kws]"
    by (simp only: Cons.IH EnergySystem_init_next_ref)
  also have "\<dots> = [next_ref w ..< next_ref w + length (kw # kws)]"
  proof -
    have "[next_ref w ..< next_ref w + Suc (length kws)]
            = next_ref w # [Suc (next_ref w) ..< next_ref w + Suc (length kws)]"
      by (rule upt_conv_Cons) simp
    then show ?thesis by simp
  qed
  finally show ?case .
qed

lemma construct_all_registry:
  "kws \<noteq> [] \<Longrightarrow>
   registry (snd (construct_all kws w)) = Some (next_ref w + length kws - 1)"
proof (induction kws arbitrary: w)
  case Nil
  then show ?case by simp
next
  case (Cons kw kws)
  show ?case
  proof (cases "kws = []")
    case True
    then show ?thesis by (simp add: split_beta Let_def EnergySystem_init_registry)
  next
    case False
    then show ?thesis
      using Cons.IH [of "snd (EnergySystem_init kw w)"]
      by (simp add: split_beta Let_def EnergySystem_init_next_ref)
  qed
qed

text \<open>
  C8.  Constructing a container makes it the active registry.  After any non-empty run of
  constructions the active registry is the container constructed last; the containers of
  the run are pairwise different objects, so the last one is none of the earlier ones,
  and the registry, a single reference, names exactly one of them.
\<close>

theorem registry_last_set_wins:
  "registry (snd (EnergySystem_init kwargs w)) = Some (fst (EnergySystem_init kwargs w))
   \<and> (kws \<noteq> [] \<longrightarrow>
        registry (snd (construct_all kws w)) = Some (last (fst (construct_all kws w)))
        \<and> distinct (fst (construct_all kws w))
        \<and> length (fst (construct_all kws w)) = length kws)"
  by (auto simp add: EnergySystem_init_fst EnergySystem_init_registry construct_all_refs
      construct_all_registry)

theorem registry_last_set_wins_witness:
  "registry (snd (EnergySystem_init [] world0)) = Some 0
   \<and> fst (construct_all [[], [(''results'', PDict [])], []] world0) = [0, 1, 2]
   \<and> registry (snd (construct_all [[], [(''results'', PDict [])], []] world0)) = Some 2"
proof -
  have n: "next_ref world0 = 0"
    by (simp add: world0_def)
  have refs: "fst (construct_all [[], [(''results'', PDict [])], []] world0) = [0, 1, 2]"
    unfolding construct_all_refs n by (simp add: upt_rec)
  show ?thesis
    using registry_last_set_wins [of "[]" world0 "[[], [(''results'', PDict [])], []]"]
    unfolding refs EnergySystem_init_fst n by simp
qed

text \<open>
  C10.  A container constructed without arguments has the attributes \<^verbatim>\<open>regions\<close>,
  \<^verbatim>\<open>entities\<close> and \<^verbatim>\<open>simulation\<close> set to the empty list, and \<^verbatim>\<open>results\<close> and
  \<^verbatim>\<open>time_idx\<close> set to \<^verbatim>\<open>None\<close>.  For any keyword arguments, the attribute
  \<^verbatim>\<open>simulation\<close> is the keyword's value or else the empty list; so where it is an
  object, that object was passed in.
\<close>

theorem EnergySystem_init_defaults:
  "heap (snd (EnergySystem_init [] w)) (fst (EnergySystem_init [] w)) =
     [(''regions'', PList []), (''entities'', PList []), (''simulation'', PList []),
      (''results'', PNone), (''time_idx'', PNone)]
   \<and> get_attr (self_obj (snd (EnergySystem_init kwargs w)) (fst (EnergySystem_init kwargs w)))
         ''simulation'' = Inr (dict_get kwargs ''simulation'' (PList []))
   \<and> (\<forall>c d. get_attr (self_obj (snd (EnergySystem_init kwargs w))
                        (fst (EnergySystem_init kwargs w))) ''simulation'' = Inr (PObj c d)
            \<longrightarrow> map_of kwargs ''simulation'' = Some (PObj c d))"
  by (auto simp add: EnergySystem_init_heap EnergySystem_init_fst dict_get_def self_obj_def
      get_attr_def split: option.splits)

theorem EnergySystem_init_defaults_witness:
  "heap (snd (EnergySystem_init [] world0)) 0 =
     [(''regions'', PList []), (''entities'', PList []), (''simulation'', PList []),
      (''results'', PNone), (''time_idx'', PNone)]
   \<and> get_attr (self_obj (snd (EnergySystem_init [(''simulation'', PObj ''S'' [])] world0)) 0)
         ''simulation'' = Inr (PObj ''S'' [])"
  using EnergySystem_init_defaults [of world0 "[(''simulation'', PObj ''S'' [])]"]
  by (simp add: EnergySystem_init_fst world0_def dict_get_def)

section \<open>Properties of \<^verbatim>\<open>connect\<close>\<close>

lemma Entity_init_registry: "registry (snd (Entity_init cls kwargs w)) = registry w"
  by (simp add: Entity_init_def Let_def split: option.splits pyval.splits)

lemma Entity_init_attached:
  "registry w = Some r \<Longrightarrow> map_of (heap w r) ''entities'' = Some (PList es) \<Longrightarrow>
   heap (snd (Entity_init cls kwargs w)) =
     (heap w)(r := set_attr ''entities'' (PList (es @ [PObj (class_qualname cls) kwargs])) (heap w r))"
  by (simp add: Entity_init_def Let_def)

lemma map_of_set_attr: "map_of (set_attr a v d) = (map_of d)(a \<mapsto> v)"
  by (simp add: set_attr_def update_conv')

lemma tuple_add_Inr: "tuple_add t x = Inr u \<longleftrightarrow> (\<exists>ys. x = PTuple ys \<and> u = t @ ys)"
  by (auto simp add: tuple_add_def split: pyval.splits)

lemma connect_loop_two:
  assumes "get_attr bus1 ''uid'' = Inr (PTuple u1)" and "get_attr bus2 ''uid'' = Inr (PTuple u2)"
  shows "connect_loop [(bus1, bus2), (bus2, bus1)] in_max out_max eta cls w =
           (Inr (),
            snd (Entity_init cls
                   [(''uid'', PTuple (PStr ''transport'' # u2 @ u1)), (''outputs'', PList [bus2]),
                    (''inputs'', PList [bus1]), (''out_max'', PList [out_max]),
                    (''in_max'', PList [in_max]), (''eta'', PList [eta])]
                 (snd (Entity_init cls
                   [(''uid'', PTuple (PStr ''transport'' # u1 @ u2)), (''outputs'', PList [bus1]),
                    (''inputs'', PList [bus2]), (''out_max'', PList [out_max]),
                    (''in_max'', PList [in_max]), (''eta'', PList [eta])] w))))"
  using assms by (simp add: tuple_add_def)

lemma connect_loop_two_fail:
  assumes "fst (connect_loop [(bus1, bus2), (bus2, bus1)] in_max out_max eta cls w) = Inl e"
  shows "snd (connect_loop [(bus1, bus2), (bus2, bus1)] in_max out_max eta cls w) = w"
proof (cases "\<exists>u1 u2. get_attr bus1 ''uid'' = Inr (PTuple u1) \<and> get_attr bus2 ''uid'' = Inr (PTuple u2)")
  case True
  then obtain u1 u2 where "get_attr bus1 ''uid'' = Inr (PTuple u1)"
    and "get_attr bus2 ''uid'' = Inr (PTuple u2)" by blast
  from connect_loop_two [OF this] assms show ?thesis by simp
next
  case False
  then show ?thesis
    by (auto simp add: tuple_add_def split: sum.splits pyval.splits)
qed

text \<open>
  C2, as the code has it.  For two buses whose uids are tuples, \<^verbatim>\<open>connect\<close> with
  \<^verbatim>\<open>transport.Simple\<close> returns, and it has appended exactly two instances of
  \<^verbatim>\<open>transport.Simple\<close> to the entity list of the active registry and changed nothing else
  in any container: first the one with output \<open>bus1\<close> and input \<open>bus2\<close>, then the one
  with output \<open>bus2\<close> and input \<open>bus1\<close>, each with \<^verbatim>\<open>out_max\<close>, \<^verbatim>\<open>in_max\<close> and
  \<^verbatim>\<open>eta\<close> as one-element lists and with the uid \<^verbatim>\<open>('transport',)\<close> followed by the uid
  of its output bus and then the uid of its input bus.
\<close>

theorem connect_creates_two_transports:
  assumes "get_attr bus1 ''uid'' = Inr (PTuple u1)"
    and "get_attr bus2 ''uid'' = Inr (PTuple u2)"
    and "registry w = Some r"
    and "map_of (heap w r) ''entities'' = Some (PList es)"
  shows "fst (connect self bus1 bus2 in_max out_max eta transport_Simple w) = Inr ()
    \<and> map_of (heap (snd (connect self bus1 bus2 in_max out_max eta transport_Simple w)) r) =
        (map_of (heap w r))(''entities'' \<mapsto> PList (es @
          [PObj ''oemof.core.network.entities.components.transports.Simple''
             [(''uid'', PTuple (PStr ''transport'' # u1 @ u2)), (''outputs'', PList [bus1]),
              (''inputs'', PList [bus2]), (''out_max'', PList [out_max]),
              (''in_max'', PList [in_max]), (''eta'', PList [eta])],
           PObj ''oemof.core.network.entities.components.transports.Simple''
             [(''uid'', PTuple (PStr ''transport'' # u2 @ u1)), (''outputs'', PList [bus2]),
              (''inputs'', PList [bus1]), (''out_max'', PList [out_max]),
              (''in_max'', PList [in_max]), (''eta'', PList [eta])]]))
    \<and> (\<forall>r'. r' \<noteq> r \<longrightarrow>
          heap (snd (connect self bus1 bus2 in_max out_max eta transport_Simple w)) r' = heap w r')"
proof -
  let ?q = "''oemof.core.network.entities.components.transports.Simple''"
  let ?k1 = "[(''uid'', PTuple (PStr ''transport'' # u1 @ u2)), (''outputs'', PList [bus1]),
              (''inputs'', PList [bus2]), (''out_max'', PList [out_max]),
              (''in_max'', PList [in_max]), (''eta'', PList [eta])]"
  let ?k2 = "[(''uid'', PTuple (PStr ''transport'' # u2 @ u1)), (''outputs'', PList [bus2]),
              (''inputs'', PList [bus1]), (''out_max'', PList [out_max]),
              (''in_max'', PList [in_max]), (''eta'', PList [eta])]"
  let ?w1 = "snd (Entity_init transport_Simple ?k1 w)"
  let ?w2 = "snd (Entity_init transport_Simple ?k2 ?w1)"
  have q: "class_qualname transport_Simple = ?q"
    by (simp add: class_qualname_def transport_Simple_def)
  have c: "connect self bus1 bus2 in_max out_max eta transport_Simple w = (Inr (), ?w2)"
    unfolding connect_def using connect_loop_two [OF assms(1,2)] by simp
  have h1: "heap ?w1 = (heap w)(r := set_attr ''entities'' (PList (es @ [PObj ?q ?k1])) (heap w r))"
    using Entity_init_attached [OF assms(3,4)] q by simp
  have r1: "registry ?w1 = Some r"
    using assms(3) by (simp add: Entity_init_registry)
  have e1: "map_of (heap ?w1 r) ''entities'' = Some (PList (es @ [PObj ?q ?k1]))"
    unfolding h1 by (simp add: map_of_set_attr)
  have h2: "heap ?w2 =
      (heap ?w1)(r := set_attr ''entities'' (PList ((es @ [PObj ?q ?k1]) @ [PObj ?q ?k2])) (heap ?w1 r))"
    using Entity_init_attached [OF r1 e1] q by simp
  have m: "map_of (heap ?w2 r) =
      (map_of (heap w r))(''entities'' \<mapsto> PList (es @ [PObj ?q ?k1, PObj ?q ?k2]))"
    unfolding h2 unfolding h1 by (simp add: map_of_set_attr)
  have o: "\<forall>r'. r' \<noteq> r \<longrightarrow> heap ?w2 r' = heap w r'"
    unfolding h2 unfolding h1 by simp
  show ?thesis
    unfolding c using m o by simp
qed

theorem connect_creates_two_transports_witness:
  "fst (connect 0 (PObj ''Bus'' [(''uid'', PTuple [PStr ''a''])])
          (PObj ''Bus'' [(''uid'', PTuple [PStr ''b''])]) (PInt 10) (PInt 8) (PInt 1)
          transport_Simple (snd (EnergySystem_init [] world0))) = Inr ()
   \<and> get_attr (self_obj (snd (connect 0 (PObj ''Bus'' [(''uid'', PTuple [PStr ''a''])])
          (PObj ''Bus'' [(''uid'', PTuple [PStr ''b''])]) (PInt 10) (PInt 8) (PInt 1)
          transport_Simple (snd (EnergySystem_init [] world0)))) 0) ''entities'' =
       Inr (PList
          [PObj ''oemof.core.network.entities.components.transports.Simple''
             [(''uid'', PTuple [PStr ''transport'', PStr ''a'', PStr ''b'']),
              (''outputs'', PList [PObj ''Bus'' [(''uid'', PTuple [PStr ''a''])]]),
              (''inputs'', PList [PObj ''Bus'' [(''uid'', PTuple [PStr ''b''])]]),
              (''out_max'', PList [PInt 8]), (''in_max'', PList [PInt 10]),
              (''eta'', PList [PInt 1])],
           PObj ''oemof.core.network.entities.components.transports.Simple''
             [(''uid'', PTuple [PStr ''transport'', PStr ''b'', PStr ''a'']),
              (''outputs'', PList [PObj ''Bus'' [(''uid'', PTuple [PStr ''b''])]]),
              (''inputs'', PList [PObj ''Bus'' [(''uid'', PTuple [PStr ''a''])]]),
              (''out_max'', PList [PInt 8]), (''in_max'', PList [PInt 10]),
              (''eta'', PList [PInt 1])]])"
proof -
  let ?w = "snd (EnergySystem_init [] world0)"
  have r: "registry ?w = Some 0"
    by (simp add: EnergySystem_init_registry world0_def)
  have e: "map_of (heap ?w 0) ''entities'' = Some (PList [])"
    by (simp add: EnergySystem_init_heap world0_def dict_get_def)
  have a: "get_attr (PObj ''Bus'' [(''uid'', PTuple [PStr ''a''])]) ''uid'' = Inr (PTuple [PStr ''a''])"
    by (simp add: get_attr_def)
  have b: "get_attr (PObj ''Bus'' [(''uid'', PTuple [PStr ''b''])]) ''uid'' = Inr (PTuple [PStr ''b''])"
    by (simp add: get_attr_def)
  show ?thesis
    using connect_creates_two_transports [OF a b r e, of 0 "PInt 10" "PInt 8" "PInt 1"]
    by (simp add: get_attr_def self_obj_def)
qed

text \<open>
  C2 as the spec states it, for every two buses, fails: with buses whose uids are
  strings, as the buses of the tests are, \<^verbatim>\<open>('transport',) + bus_a.uid\<close> raises
  \<^verbatim>\<open>TypeError\<close> and no transport is created.
\<close>

theorem connect_string_uid_counterexample:
  "connect 0 (PObj ''oemof.core.network.entities.Bus'' [(''uid'', PStr ''bgas'')])
     (PObj ''oemof.core.network.entities.Bus'' [(''uid'', PStr ''bel'')])
     (PInt 10) (PInt 8) (PInt 1) transport_Simple (snd (EnergySystem_init [] world0))
   = (Inl (TypeError (''can only concatenate tuple (not '' @ [CHR 0x22] @ ''str'' @ [CHR 0x22]
                      @ '') to tuple'')),
      snd (EnergySystem_init [] world0))"
  by (simp add: connect_def get_attr_def tuple_add_def type_name_def)

text \<open>
  C3.  With any \<^verbatim>\<open>transport_class\<close> other than \<^verbatim>\<open>transport.Simple\<close>, \<^verbatim>\<open>connect\<close> raises
  \<^verbatim>\<open>TypeError\<close> with the message of the source, and has only logged by then.  And
  whenever \<^verbatim>\<open>connect\<close> raises, for whatever reason, all containers are as before (no
  entity has been attached) and so is the active registry.
\<close>

theorem connect_unsupported_transport_class:
  "(transport_class \<noteq> transport_Simple \<longrightarrow>
      connect self bus1 bus2 in_max out_max eta transport_class w =
        (Inl (TypeError (''Sorry, `EnergySystem.connect` currently only works with''
                         @ ''a `transport_class` argument of''
                         @ ''<class '' @ [CHR 0x27]
                         @ ''oemof.core.network.entities.components.transports.Simple''
                         @ [CHR 0x27] @ ''>'')),
         logging ''error'' [] w))
   \<and> (\<forall>e. fst (connect self bus1 bus2 in_max out_max eta transport_class w) = Inl e \<longrightarrow>
          heap (snd (connect self bus1 bus2 in_max out_max eta transport_class w)) = heap w
          \<and> registry (snd (connect self bus1 bus2 in_max out_max eta transport_class w))
              = registry w)"
proof (intro conjI impI allI)
  assume "transport_class \<noteq> transport_Simple"
  then show "connect self bus1 bus2 in_max out_max eta transport_class w =
        (Inl (TypeError (''Sorry, `EnergySystem.connect` currently only works with''
                         @ ''a `transport_class` argument of''
                         @ ''<class '' @ [CHR 0x27]
                         @ ''oemof.core.network.entities.components.transports.Simple''
                         @ [CHR 0x27] @ ''>'')),
         logging ''error'' [] w)"
    by (simp add: connect_def str_class_def class_qualname_def transport_Simple_def)
next
  fix e
  assume f: "fst (connect self bus1 bus2 in_max out_max eta transport_class w) = Inl e"
  have "snd (connect self bus1 bus2 in_max out_max eta transport_class w) = w
        \<or> snd (connect self bus1 bus2 in_max out_max eta transport_class w) = logging ''error'' [] w"
  proof (cases "transport_class = transport_Simple")
    case True
    with f connect_loop_two_fail [of bus1 bus2 in_max out_max eta transport_class w e]
    show ?thesis by (simp add: connect_def)
  next
    case False
    then show ?thesis by (simp add: connect_def)
  qed
  then show "heap (snd (connect self bus1 bus2 in_max out_max eta transport_class w)) = heap w"
    and "registry (snd (connect self bus1 bus2 in_max out_max eta transport_class w)) = registry w"
    by (auto simp add: logging_def)
qed

theorem connect_unsupported_transport_class_witness:
  "fst (connect 0 (PObj ''Bus'' [(''uid'', PTuple [PStr ''a''])])
          (PObj ''Bus'' [(''uid'', PTuple [PStr ''b''])]) (PInt 10) (PInt 8) (PInt 1)
          (PClass ''oemof.core.network.entities.components.transports'' ''Other'')
          (snd (EnergySystem_init [] world0)))
     = Inl (TypeError (''Sorry, `EnergySystem.connect` currently only works with''
                         @ ''a `transport_class` argument of''
                         @ ''<class '' @ [CHR 0x27]
                         @ ''oemof.core.network.entities.components.transports.Simple''
                         @ [CHR 0x27] @ ''>''))
   \<and> heap (snd (connect 0 (PObj ''Bus'' [(''uid'', PTuple [PStr ''a''])])
          (PObj ''Bus'' [(''uid'', PTuple [PStr ''b''])]) (PInt 10) (PInt 8) (PInt 1)
          (PClass ''oemof.core.network.entities.components.transports'' ''Other'')
          (snd (EnergySystem_init [] world0)))) 0
     = [(''regions'', PList []), (''entities'', PList []), (''simulation'', PList []),
        (''results'', PNone), (''time_idx'', PNone)]"
  using connect_unsupported_transport_class
    [of "PClass ''oemof.core.network.entities.components.transports'' ''Other''"
        0 "PObj ''Bus'' [(''uid'', PTuple [PStr ''a''])]"
        "PObj ''Bus'' [(''uid'', PTuple [PStr ''b''])]" "PInt 10" "PInt 8" "PInt 1"
        "snd (EnergySystem_init [] world0)"]
  by (simp add: transport_Simple_def EnergySystem_init_heap world0_def dict_get_def logging_def)

section \<open>Properties of \<^verbatim>\<open>optimize\<close>\<close>

lemma get_attr2_simulation:
  "map_of (heap w self) ''simulation'' = Some sim \<Longrightarrow>
   get_attr2 (self_obj w self) ''simulation'' a = get_attr sim a"
  by (simp add: get_attr2_def self_obj_def get_attr_def)

lemma get_attr2_Inr:
  "get_attr2 (self_obj w self) ''simulation'' a = Inr x \<Longrightarrow>
   \<exists>sim. map_of (heap w self) ''simulation'' = Some sim \<and> get_attr sim a = Inr x"
  by (simp add: get_attr2_def self_obj_def get_attr_def split: option.splits)

lemma optimize_cases:
  "(\<exists>e. optimize OM self om w = (Inl e, w))
   \<or> (\<exists>m0 solver debug verbose duals solve_kwargs m1 r.
        (case om of None \<Rightarrow> OM_init OM self w | Some m \<Rightarrow> Inr m) = Inr m0
        \<and> get_attr2 (self_obj w self) ''simulation'' ''solver'' = Inr solver
        \<and> get_attr2 (self_obj w self) ''simulation'' ''debug'' = Inr debug
        \<and> get_attr2 (self_obj w self) ''simulation'' ''verbose'' = Inr verbose
        \<and> get_attr2 (self_obj w self) ''simulation'' ''duals'' = Inr duals
        \<and> get_attr2 (self_obj w self) ''simulation'' ''solve_kwargs'' = Inr solve_kwargs
        \<and> OM_solve OM m0 solver debug verbose duals solve_kwargs = Inr m1
        \<and> OM_results OM m1 = Inr r
        \<and> optimize OM self om w =
            (Inr self, w\<lparr>heap := (heap w)(self := set_attr ''results'' r (heap w self))\<rparr>))"
  unfolding optimize_def by (simp split: sum.splits)

text \<open>
  C4, as the code has it, for every compiler.  Let the model be the one passed in or,
  with none passed, the one constructed for this container.  If the container's
  attribute \<^verbatim>\<open>simulation\<close> is an object with the attributes \<^verbatim>\<open>solver\<close>, \<^verbatim>\<open>debug\<close>,
  \<^verbatim>\<open>verbose\<close>, \<^verbatim>\<open>duals\<close> and \<^verbatim>\<open>solve_kwargs\<close>, and \<^verbatim>\<open>solve\<close>, called with exactly those five
  values, and then \<^verbatim>\<open>results()\<close> return, then \<^verbatim>\<open>optimize\<close> returns the container itself
  and its attribute \<^verbatim>\<open>results\<close> is what \<^verbatim>\<open>results()\<close> returned.  In no other case does
  \<^verbatim>\<open>optimize\<close> return.  When one of the five attributes cannot be read, \<^verbatim>\<open>optimize\<close> raises
  and stores nothing: an error of the constructor is the error of \<^verbatim>\<open>optimize\<close>, and with
  a model at hand and no \<^verbatim>\<open>solver\<close> to read, the error is the \<^verbatim>\<open>AttributeError\<close> of
  \<^verbatim>\<open>self.simulation.solver\<close>.  A simulation attribute that is no object, such as the
  empty list, has none of the attributes.
\<close>

theorem optimize_stores_results:
  "(\<forall>m0 sim solver debug verbose duals solve_kwargs m1 r.
      (case om of None \<Rightarrow> OM_init OM self w | Some m \<Rightarrow> Inr m) = Inr m0
      \<and> map_of (heap w self) ''simulation'' = Some sim
      \<and> get_attr sim ''solver'' = Inr solver
      \<and> get_attr sim ''debug'' = Inr debug
      \<and> get_attr sim ''verbose'' = Inr verbose
      \<and> get_attr sim ''duals'' = Inr duals
      \<and> get_attr sim ''solve_kwargs'' = Inr solve_kwargs
      \<and> OM_solve OM m0 solver debug verbose duals solve_kwargs = Inr m1
      \<and> OM_results OM m1 = Inr r
      \<longrightarrow> optimize OM self om w =
            (Inr self, w\<lparr>heap := (heap w)(self := set_attr ''results'' r (heap w self))\<rparr>)
          \<and> get_attr (self_obj (snd (optimize OM self om w)) self) ''results'' = Inr r)
   \<and> (\<forall>x w1. optimize OM self om w = (Inr x, w1) \<longrightarrow>
        x = self
        \<and> (\<exists>m0 sim solver debug verbose duals solve_kwargs m1 r.
              (case om of None \<Rightarrow> OM_init OM self w | Some m \<Rightarrow> Inr m) = Inr m0
              \<and> map_of (heap w self) ''simulation'' = Some sim
              \<and> get_attr sim ''solver'' = Inr solver
              \<and> get_attr sim ''debug'' = Inr debug
              \<and> get_attr sim ''verbose'' = Inr verbose
              \<and> get_attr sim ''duals'' = Inr duals
              \<and> get_attr sim ''solve_kwargs'' = Inr solve_kwargs
              \<and> OM_solve OM m0 solver debug verbose duals solve_kwargs = Inr m1
              \<and> OM_results OM m1 = Inr r
              \<and> w1 = w\<lparr>heap := (heap w)(self := set_attr ''results'' r (heap w self))\<rparr>))
   \<and> (\<forall>a e. a \<in> set [''solver'', ''debug'', ''verbose'', ''duals'', ''solve_kwargs'']
          \<and> get_attr2 (self_obj w self) ''simulation'' a = Inl e
        \<longrightarrow> (\<exists>e1. optimize OM self om w = (Inl e1, w)))
   \<and> (\<forall>e0. (case om of None \<Rightarrow> OM_init OM self w | Some m \<Rightarrow> Inr m) = Inl e0
        \<longrightarrow> optimize OM self om w = (Inl e0, w))
   \<and> (\<forall>m0 e. (case om of None \<Rightarrow> OM_init OM self w | Some m \<Rightarrow> Inr m) = Inr m0
          \<and> get_attr2 (self_obj w self) ''simulation'' ''solver'' = Inl e
        \<longrightarrow> optimize OM self om w = (Inl e, w))
   \<and> (\<forall>v a. map_of (heap w self) ''simulation'' = Some v \<and> (\<forall>c d. v \<noteq> PObj c d)
        \<longrightarrow> get_attr2 (self_obj w self) ''simulation'' a = Inl (no_attribute v a))"
proof (intro conjI allI impI)
  fix m0 sim solver debug verbose duals solve_kwargs m1 r
  assume a: "(case om of None \<Rightarrow> OM_init OM self w | Some m \<Rightarrow> Inr m) = Inr m0
      \<and> map_of (heap w self) ''simulation'' = Some sim
      \<and> get_attr sim ''solver'' = Inr solver
      \<and> get_attr sim ''debug'' = Inr debug
      \<and> get_attr sim ''verbose'' = Inr verbose
      \<and> get_attr sim ''duals'' = Inr duals
      \<and> get_attr sim ''solve_kwargs'' = Inr solve_kwargs
      \<and> OM_solve OM m0 solver debug verbose duals solve_kwargs = Inr m1
      \<and> OM_results OM m1 = Inr r"
  then have s: "map_of (heap w self) ''simulation'' = Some sim" by simp
  show o: "optimize OM self om w =
           (Inr self, w\<lparr>heap := (heap w)(self := set_attr ''results'' r (heap w self))\<rparr>)"
    unfolding optimize_def using a by (simp add: get_attr2_simulation [OF s])
  show "get_attr (self_obj (snd (optimize OM self om w)) self) ''results'' = Inr r"
    unfolding o by (simp add: self_obj_def get_attr_def map_of_set_attr)
next
  fix x w1
  assume r: "optimize OM self om w = (Inr x, w1)"
  from optimize_cases [of OM self om w]
  obtain m0 solver debug verbose duals solve_kwargs m1 r where
    1: "(case om of None \<Rightarrow> OM_init OM self w | Some m \<Rightarrow> Inr m) = Inr m0"
    and 2: "get_attr2 (self_obj w self) ''simulation'' ''solver'' = Inr solver"
    and 3: "get_attr2 (self_obj w self) ''simulation'' ''debug'' = Inr debug"
    and 4: "get_attr2 (self_obj w self) ''simulation'' ''verbose'' = Inr verbose"
    and 5: "get_attr2 (self_obj w self) ''simulation'' ''duals'' = Inr duals"
    and 6: "get_attr2 (self_obj w self) ''simulation'' ''solve_kwargs'' = Inr solve_kwargs"
    and 7: "OM_solve OM m0 solver debug verbose duals solve_kwargs = Inr m1"
    and 8: "OM_results OM m1 = Inr r"
    and 9: "optimize OM self om w =
            (Inr self, w\<lparr>heap := (heap w)(self := set_attr ''results'' r (heap w self))\<rparr>)"
    unfolding r by (elim disjE exE conjE) simp_all
  from get_attr2_Inr [OF 2] obtain sim where
    s: "map_of (heap w self) ''simulation'' = Some sim"
    and s2: "get_attr sim ''solver'' = Inr solver"
    by (elim exE conjE)
  note g = get_attr2_simulation [OF s]
  from 9 show "x = self"
    unfolding r by simp
  from 9 have w1: "w1 = w\<lparr>heap := (heap w)(self := set_attr ''results'' r (heap w self))\<rparr>"
    unfolding r by simp
  show "\<exists>m0 sim solver debug verbose duals solve_kwargs m1 r.
              (case om of None \<Rightarrow> OM_init OM self w | Some m \<Rightarrow> Inr m) = Inr m0
              \<and> map_of (heap w self) ''simulation'' = Some sim
              \<and> get_attr sim ''solver'' = Inr solver
              \<and> get_attr sim ''debug'' = Inr debug
              \<and> get_attr sim ''verbose'' = Inr verbose
              \<and> get_attr sim ''duals'' = Inr duals
              \<and> get_attr sim ''solve_kwargs'' = Inr solve_kwargs
              \<and> OM_solve OM m0 solver debug verbose duals solve_kwargs = Inr m1
              \<and> OM_results OM m1 = Inr r
              \<and> w1 = w\<lparr>heap := (heap w)(self := set_attr ''results'' r (heap w self))\<rparr>"
    using 1 s s2 3 [unfolded g] 4 [unfolded g] 5 [unfolded g] 6 [unfolded g] 7 8 w1
    by (intro exI conjI)
next
  fix a e
  assume a: "a \<in> set [''solver'', ''debug'', ''verbose'', ''duals'', ''solve_kwargs'']
          \<and> get_attr2 (self_obj w self) ''simulation'' a = Inl e"
  from optimize_cases [of OM self om w]
  show "\<exists>e1. optimize OM self om w = (Inl e1, w)"
  proof (elim disjE exE conjE)
    fix e1
    assume "optimize OM self om w = (Inl e1, w)"
    then show ?thesis by (rule exI)
  next
    fix m0 solver debug verbose duals solve_kwargs m1 r
    assume "get_attr2 (self_obj w self) ''simulation'' ''solver'' = Inr solver"
      and "get_attr2 (self_obj w self) ''simulation'' ''debug'' = Inr debug"
      and "get_attr2 (self_obj w self) ''simulation'' ''verbose'' = Inr verbose"
      and "get_attr2 (self_obj w self) ''simulation'' ''duals'' = Inr duals"
      and "get_attr2 (self_obj w self) ''simulation'' ''solve_kwargs'' = Inr solve_kwargs"
    with a have False
      by (simp only: set_simps insert_iff empty_iff) (elim conjE disjE; simp)
    then show ?thesis ..
  qed
next
  fix e0
  assume "(case om of None \<Rightarrow> OM_init OM self w | Some m \<Rightarrow> Inr m) = Inl e0"
  then show "optimize OM self om w = (Inl e0, w)"
    unfolding optimize_def by simp
next
  fix m0 e
  assume "(case om of None \<Rightarrow> OM_init OM self w | Some m \<Rightarrow> Inr m) = Inr m0
          \<and> get_attr2 (self_obj w self) ''simulation'' ''solver'' = Inl e"
  then show "optimize OM self om w = (Inl e, w)"
    unfolding optimize_def by simp
next
  fix v a
  assume "map_of (heap w self) ''simulation'' = Some v \<and> (\<forall>c d. v \<noteq> PObj c d)"
  then show "get_attr2 (self_obj w self) ''simulation'' a = Inl (no_attribute v a)"
    by (cases v) (simp_all add: get_attr2_def self_obj_def get_attr_def)
qed

theorem optimize_stores_results_witness:
  "fst (optimize echo_compiler 0 None
          (snd (EnergySystem_init
                  [(''simulation'', PObj ''oemof.core.energy_system.Simulation''
                      [(''solver'', PStr ''glpk''), (''debug'', PBool False),
                       (''verbose'', PBool True), (''duals'', PBool False),
                       (''solve_kwargs'', PDict [])])] world0))) = Inr 0
   \<and> get_attr (self_obj (snd (optimize echo_compiler 0 None
          (snd (EnergySystem_init
                  [(''simulation'', PObj ''oemof.core.energy_system.Simulation''
                      [(''solver'', PStr ''glpk''), (''debug'', PBool False),
                       (''verbose'', PBool True), (''duals'', PBool False),
                       (''solve_kwargs'', PDict [])])] world0)))) 0) ''results''
       = Inr (PList [PStr ''glpk'', PBool False, PBool True, PBool False, PDict []])
   \<and> optimize echo_compiler 0 None (snd (EnergySystem_init [] world0))
       = (Inl (no_attribute (PList []) ''solver''), snd (EnergySystem_init [] world0))
   \<and> optimize (echo_compiler\<lparr>OM_init := \<lambda>self w. Inl (ValueError ''no entities'')\<rparr>) 0 None
         (snd (EnergySystem_init [] world0))
       = (Inl (ValueError ''no entities''), snd (EnergySystem_init [] world0))"
proof -
  let ?sim = "PObj ''oemof.core.energy_system.Simulation''
                      [(''solver'', PStr ''glpk''), (''debug'', PBool False),
                       (''verbose'', PBool True), (''duals'', PBool False),
                       (''solve_kwargs'', PDict [])]"
  let ?w = "snd (EnergySystem_init [(''simulation'', ?sim)] world0)"
  let ?d = "snd (EnergySystem_init [] world0)"
  let ?r = "PList [PStr ''glpk'', PBool False, PBool True, PBool False, PDict []]"
  let ?bad = "echo_compiler\<lparr>OM_init := \<lambda>self w. Inl (ValueError ''no entities'')\<rparr>"
  have a: "(case None of None \<Rightarrow> OM_init echo_compiler 0 ?w | Some m \<Rightarrow> Inr m) = Inr []
      \<and> map_of (heap ?w 0) ''simulation'' = Some ?sim
      \<and> get_attr ?sim ''solver'' = Inr (PStr ''glpk'')
      \<and> get_attr ?sim ''debug'' = Inr (PBool False)
      \<and> get_attr ?sim ''verbose'' = Inr (PBool True)
      \<and> get_attr ?sim ''duals'' = Inr (PBool False)
      \<and> get_attr ?sim ''solve_kwargs'' = Inr (PDict [])
      \<and> OM_solve echo_compiler [] (PStr ''glpk'') (PBool False) (PBool True) (PBool False)
             (PDict []) = Inr [PStr ''glpk'', PBool False, PBool True, PBool False, PDict []]
      \<and> OM_results echo_compiler [PStr ''glpk'', PBool False, PBool True, PBool False, PDict []]
             = Inr ?r"
    by (simp add: echo_compiler_def EnergySystem_init_heap world0_def dict_get_def get_attr_def)
  note t = optimize_stores_results [where OM = echo_compiler and self = 0 and om = None and w = ?w]
  note p1 = t [THEN conjunct1, rule_format, OF a]
  have c1: "fst (optimize echo_compiler 0 None ?w) = Inr 0"
    unfolding p1 [THEN conjunct1] by (rule fst_conv)
  note c2 = p1 [THEN conjunct2]
  note u = optimize_stores_results [where OM = echo_compiler and self = 0 and om = None and w = ?d]
  have s: "map_of (heap ?d 0) ''simulation'' = Some (PList []) \<and> (\<forall>c d. PList [] \<noteq> PObj c d)"
    by (simp add: EnergySystem_init_heap world0_def dict_get_def)
  note g = u [THEN conjunct2, THEN conjunct2, THEN conjunct2, THEN conjunct2, THEN conjunct2,
              rule_format, OF s, of "''solver''"]
  have m: "(case None of None \<Rightarrow> OM_init echo_compiler 0 ?d | Some m \<Rightarrow> Inr m) = Inr []"
    by (simp add: echo_compiler_def)
  note c3 = u [THEN conjunct2, THEN conjunct2, THEN conjunct2, THEN conjunct2, THEN conjunct1,
               rule_format, OF conjI, OF m g]
  note v = optimize_stores_results [where OM = ?bad and self = 0 and om = None and w = ?d]
  have b: "(case None of None \<Rightarrow> OM_init ?bad 0 ?d | Some m \<Rightarrow> Inr m)
             = Inl (ValueError ''no entities'')"
    by simp
  note c4 = v [THEN conjunct2, THEN conjunct2, THEN conjunct2, THEN conjunct1, rule_format, OF b]
  from c1 c2 c3 c4 show ?thesis
    by (intro conjI)
qed

text \<open>
  C4 as the spec states it, for every container, fails: a container constructed without
  a simulation has the empty list there, and \<^verbatim>\<open>optimize\<close> raises \<^verbatim>\<open>AttributeError\<close>
  at \<^verbatim>\<open>self.simulation.solver\<close>; its results stay \<^verbatim>\<open>None\<close>.
\<close>

theorem optimize_default_container_counterexample:
  "optimize echo_compiler 0 None (snd (EnergySystem_init [] world0))
     = (Inl (no_attribute (PList []) ''solver''), snd (EnergySystem_init [] world0))
   \<and> get_attr (self_obj (snd (EnergySystem_init [] world0)) 0) ''results'' = Inr PNone"
  by (simp add: optimize_def echo_compiler_def get_attr2_def self_obj_def get_attr_def
      EnergySystem_init_heap world0_def dict_get_def)

text \<open>
  C5.  If \<^verbatim>\<open>solve\<close> raises, \<^verbatim>\<open>optimize\<close> raises the same error and the world is as
  before, the attribute \<^verbatim>\<open>results\<close> included.  More generally, whenever \<^verbatim>\<open>optimize\<close>
  raises, nothing has changed: the assignment to \<^verbatim>\<open>self.results\<close> is its last step.
\<close>

theorem optimize_solve_error:
  "((case om of None \<Rightarrow> OM_init OM self w | Some m \<Rightarrow> Inr m) = Inr m0
      \<and> map_of (heap w self) ''simulation'' = Some sim
      \<and> get_attr sim ''solver'' = Inr solver
      \<and> get_attr sim ''debug'' = Inr debug
      \<and> get_attr sim ''verbose'' = Inr verbose
      \<and> get_attr sim ''duals'' = Inr duals
      \<and> get_attr sim ''solve_kwargs'' = Inr solve_kwargs
      \<and> OM_solve OM m0 solver debug verbose duals solve_kwargs = Inl e
    \<longrightarrow> optimize OM self om w = (Inl e, w))
   \<and> (\<forall>e'. fst (optimize OM self om w) = Inl e' \<longrightarrow> snd (optimize OM self om w) = w)"
proof (intro conjI impI allI)
  assume a: "(case om of None \<Rightarrow> OM_init OM self w | Some m \<Rightarrow> Inr m) = Inr m0
      \<and> map_of (heap w self) ''simulation'' = Some sim
      \<and> get_attr sim ''solver'' = Inr solver
      \<and> get_attr sim ''debug'' = Inr debug
      \<and> get_attr sim ''verbose'' = Inr verbose
      \<and> get_attr sim ''duals'' = Inr duals
      \<and> get_attr sim ''solve_kwargs'' = Inr solve_kwargs
      \<and> OM_solve OM m0 solver debug verbose duals solve_kwargs = Inl e"
  then have s: "map_of (heap w self) ''simulation'' = Some sim" by simp
  show "optimize OM self om w = (Inl e, w)"
    unfolding optimize_def using a by (simp add: get_attr2_simulation [OF s])
next
  fix e'
  assume "fst (optimize OM self om w) = Inl e'"
  then show "snd (optimize OM self om w) = w"
    unfolding optimize_def by (simp split: sum.splits)
qed

theorem optimize_solve_error_witness:
  "optimize (failing_compiler (ValueError ''infeasible'')) 0 None
          (snd (EnergySystem_init
                  [(''simulation'', PObj ''oemof.core.energy_system.Simulation''
                      [(''solver'', PStr ''glpk''), (''debug'', PBool False),
                       (''verbose'', PBool True), (''duals'', PBool False),
                       (''solve_kwargs'', PDict [])])] world0))
     = (Inl (ValueError ''infeasible''),
        snd (EnergySystem_init
                  [(''simulation'', PObj ''oemof.core.energy_system.Simulation''
                      [(''solver'', PStr ''glpk''), (''debug'', PBool False),
                       (''verbose'', PBool True), (''duals'', PBool False),
                       (''solve_kwargs'', PDict [])])] world0))"
proof -
  let ?sim = "PObj ''oemof.core.energy_system.Simulation''
                      [(''solver'', PStr ''glpk''), (''debug'', PBool False),
                       (''verbose'', PBool True), (''duals'', PBool False),
                       (''solve_kwargs'', PDict [])]"
  let ?w = "snd (EnergySystem_init [(''simulation'', ?sim)] world0)"
  have 2: "map_of (heap ?w 0) ''simulation'' = Some ?sim"
    by (simp add: EnergySystem_init_heap world0_def dict_get_def)
  show ?thesis
    using optimize_solve_error
      [where om = None and OM = "failing_compiler (ValueError ''infeasible'')" and self = 0
         and w = ?w and ?m0.0 = "()" and sim = ?sim and solver = "PStr ''glpk''"
         and debug = "PBool False" and verbose = "PBool True" and duals = "PBool False"
         and solve_kwargs = "PDict []" and e = "ValueError ''infeasible''"] 2
    by (simp add: failing_compiler_def get_attr_def)
qed

section \<open>Properties of \<^verbatim>\<open>dump\<close> and \<^verbatim>\<open>restore\<close>\<close>

lemma not_all_slashes:
  assumes "a \<noteq> []" and "last a \<noteq> CHR ''/''"
  shows "\<not> list_all (\<lambda>c. c = CHR ''/'') a"
proof
  assume all: "list_all (\<lambda>c. c = CHR ''/'') a"
  from assms(1) have "last a \<in> set a" by (rule last_in_set)
  with all have "last a = CHR ''/''" unfolding list_all_iff by (rule bspec)
  with assms(2) show False by (rule notE)
qed

lemma dirname_append:
  assumes "a \<noteq> []" and "last a \<noteq> CHR ''/''" and "CHR ''/'' \<notin> set b"
  shows "dirname (a @ CHR ''/'' # b) = a"
proof -
  have "dropWhile (\<lambda>c. c \<noteq> CHR ''/'') (rev b @ CHR ''/'' # rev a)
          = dropWhile (\<lambda>c. c \<noteq> CHR ''/'') (CHR ''/'' # rev a)"
  proof (rule dropWhile_append2)
    fix x assume "x \<in> set (rev b)"
    with assms(3) show "x \<noteq> CHR ''/''" by auto
  qed
  then have d: "dropWhile (\<lambda>c. c \<noteq> CHR ''/'') (rev b @ CHR ''/'' # rev a) = CHR ''/'' # rev a"
    by simp
  obtain xs x where a: "a = xs @ [x]"
    using assms(1) by (cases a rule: rev_cases) auto
  with assms(2) have x: "x \<noteq> CHR ''/''" by simp
  have dw: "dropWhile (\<lambda>c. c = CHR ''/'') (rev a) = rev a"
    unfolding a using x by simp
  have n: "\<not> list_all (\<lambda>c. c = CHR ''/'') a"
    using assms(1,2) by (rule not_all_slashes)
  have r: "rev (a @ CHR ''/'' # b) = rev b @ CHR ''/'' # rev a"
    by simp
  have hd: "rev (CHR ''/'' # rev a) = a @ ''/''"
    by simp
  have n': "\<not> list_all (\<lambda>c. c = CHR ''/'') (a @ ''/'')"
    using n by simp
  have "dirname (a @ CHR ''/'' # b) = rev (dropWhile (\<lambda>c. c = CHR ''/'') (rev (a @ ''/'')))"
    unfolding dirname_def r d hd Let_def using n' by simp
  also have "\<dots> = a"
    using dw by simp
  finally show ?thesis .
qed

lemma write_file_Inr:
  "write_file p c fs = Inr fs' \<Longrightarrow>
   fs' = fs\<lparr>files := AList.update p c (files fs)\<rparr> \<and> \<not> isdir p fs"
  by (simp add: write_file_def split: if_splits)

lemma read_after_write:
  assumes "write_file p c fs = Inr fs'"
  shows "read_file p fs' = Inr c"
proof -
  from write_file_Inr [OF assms]
  have f: "fs' = fs\<lparr>files := AList.update p c (files fs)\<rparr>" and d: "\<not> isdir p fs"
    by simp_all
  show ?thesis
    unfolding f using d by (simp add: read_file_def isdir_def update_conv')
qed

lemma mkdir_Inr: "mkdir p fs = Inr fs' \<Longrightarrow> fs' = fs\<lparr>dirs := dirs fs @ [p]\<rparr>"
  by (simp add: mkdir_def split: if_splits)

lemma ensure_dir:
  assumes "(if \<not> isdir p fs then mkdir p fs else Inr fs) = Inr fs'"
  shows "isdir p fs'" and "files fs' = files fs" and "readonly fs' = readonly fs"
    and "set (dirs fs) \<subseteq> set (dirs fs')"
proof -
  have "fs' = fs \<and> isdir p fs \<or> fs' = fs\<lparr>dirs := dirs fs @ [p]\<rparr>"
    using assms mkdir_Inr [of p fs fs'] by (cases "isdir p fs") simp_all
  then show "isdir p fs'" and "files fs' = files fs" and "readonly fs' = readonly fs"
    and "set (dirs fs) \<subseteq> set (dirs fs')"
    by (auto simp add: isdir_def)
qed

lemma dump_default_unfold:
  "dump self None filename w =
     (case (if \<not> isdir (os_path_join (home w) [''.oemof'']) (fsys w)
            then mkdir (os_path_join (home w) [''.oemof'']) (fsys w) else Inr (fsys w)) of
        Inl e \<Rightarrow> (Inl e, w)
      | Inr fs1 \<Rightarrow>
     (case (if \<not> isdir (os_path_join (home w) [''.oemof'', ''dumps'']) fs1
            then mkdir (os_path_join (home w) [''.oemof'', ''dumps'']) fs1 else Inr fs1) of
        Inl e \<Rightarrow> (Inl e, w\<lparr>fsys := fs1\<rparr>)
      | Inr fs2 \<Rightarrow>
     (case write_file (os_path_join (os_path_join (home w) [''.oemof'', ''dumps''])
                         [case filename of None \<Rightarrow> ''es_dump.oemof'' | Some f \<Rightarrow> f])
             (Snapshot (heap w self)) fs2 of
        Inl e \<Rightarrow> (Inl e, w\<lparr>fsys := fs2\<rparr>)
      | Inr fs \<Rightarrow>
          (Inr (''Attributes dumped to: ''
                @ os_path_join (os_path_join (home w) [''.oemof'', ''dumps''])
                    [case filename of None \<Rightarrow> ''es_dump.oemof'' | Some f \<Rightarrow> f]),
           logging ''debug'' (''Attributes dumped to: ''
                @ os_path_join (os_path_join (home w) [''.oemof'', ''dumps''])
                    [case filename of None \<Rightarrow> ''es_dump.oemof'' | Some f \<Rightarrow> f])
             (w\<lparr>fsys := fs\<rparr>)))))"
  unfolding dump_def Let_def os_path_join_def
  by (simp split: sum.splits)

lemma dump_given_unfold:
  "dump self (Some p) filename w =
     (case write_file (os_path_join p [case filename of None \<Rightarrow> ''es_dump.oemof'' | Some f \<Rightarrow> f])
             (Snapshot (heap w self)) (fsys w) of
        Inl e \<Rightarrow> (Inl e, w)
      | Inr fs \<Rightarrow>
          (Inr (''Attributes dumped to: ''
                @ os_path_join p [case filename of None \<Rightarrow> ''es_dump.oemof'' | Some f \<Rightarrow> f]),
           logging ''debug'' (''Attributes dumped to: ''
                @ os_path_join p [case filename of None \<Rightarrow> ''es_dump.oemof'' | Some f \<Rightarrow> f])
             (w\<lparr>fsys := fs\<rparr>)))"
  unfolding dump_def Let_def
  by (simp split: sum.splits)

lemma restore_unfold:
  "restore self dpath filename w =
     (case read_file (os_path_join (case dpath of None \<Rightarrow> os_path_join (home w) [''.oemof'', ''dumps'']
                                    | Some p \<Rightarrow> p)
                        [case filename of None \<Rightarrow> ''es_dump.oemof'' | Some f \<Rightarrow> f]) (fsys w) of
        Inl e \<Rightarrow> (Inl e, logging ''info'' ''Restoring attributes will overwrite existing attributes.'' w)
      | Inr c \<Rightarrow>
     (case pickle_load c of
        Inl e \<Rightarrow> (Inl e, logging ''info'' ''Restoring attributes will overwrite existing attributes.'' w)
      | Inr d \<Rightarrow>
          (Inr (''Attributes restored from: ''
                @ os_path_join (case dpath of None \<Rightarrow> os_path_join (home w) [''.oemof'', ''dumps'']
                                | Some p \<Rightarrow> p)
                    [case filename of None \<Rightarrow> ''es_dump.oemof'' | Some f \<Rightarrow> f]),
           logging ''debug'' (''Attributes restored from: ''
                @ os_path_join (case dpath of None \<Rightarrow> os_path_join (home w) [''.oemof'', ''dumps'']
                                | Some p \<Rightarrow> p)
                    [case filename of None \<Rightarrow> ''es_dump.oemof'' | Some f \<Rightarrow> f])
             ((logging ''info'' ''Restoring attributes will overwrite existing attributes.'' w)
                \<lparr>heap := (heap w)(self := d)\<rparr>))))"
  unfolding restore_def Let_def
  by (cases dpath; cases filename; simp add: logging_def split: sum.splits)

lemma dump_Inr:
  assumes "dump a dpath filename w = (Inr msg, w1)"
  shows "\<exists>fs0. write_file
                 (os_path_join (case dpath of None \<Rightarrow> os_path_join (home w) [''.oemof'', ''dumps'']
                                | Some p \<Rightarrow> p)
                    [case filename of None \<Rightarrow> ''es_dump.oemof'' | Some f \<Rightarrow> f])
                 (Snapshot (heap w a)) fs0 = Inr (fsys w1)
               \<and> (dpath = None \<longrightarrow> isdir (os_path_join (home w) [''.oemof'']) fs0
                                  \<and> isdir (os_path_join (home w) [''.oemof'', ''dumps'']) fs0)"
    and "heap w1 = heap w" and "home w1 = home w" and "registry w1 = registry w"
    and "msg = ''Attributes dumped to: '' @
           os_path_join (case dpath of None \<Rightarrow> os_path_join (home w) [''.oemof'', ''dumps'']
                         | Some p \<Rightarrow> p)
             [case filename of None \<Rightarrow> ''es_dump.oemof'' | Some f \<Rightarrow> f]"
proof -
  let ?F = "case filename of None \<Rightarrow> ''es_dump.oemof'' | Some f \<Rightarrow> f"
  let ?D = "case dpath of None \<Rightarrow> os_path_join (home w) [''.oemof'', ''dumps''] | Some p \<Rightarrow> p"
  let ?P = "os_path_join ?D [?F]"
  let ?B = "os_path_join (home w) [''.oemof'']"
  let ?Dd = "os_path_join (home w) [''.oemof'', ''dumps'']"
  let ?M = "''Attributes dumped to: '' @ ?P"
  have nofail: "\<And>e s. (Inl e :: error + string, s) \<noteq> (Inr msg, w1)"
    by simp
  have "\<exists>fs0 fs. write_file ?P (Snapshot (heap w a)) fs0 = Inr fs
          \<and> (dpath = None \<longrightarrow> isdir ?B fs0 \<and> isdir ?Dd fs0)
          \<and> (Inr ?M :: error + string, logging ''debug'' ?M (w\<lparr>fsys := fs\<rparr>))
              = (Inr msg, w1)"
  proof (cases dpath)
    case (Some p)
    from assms have da: "dump a (Some p) filename w = (Inr msg, w1)"
      unfolding Some .
    show ?thesis
    proof (cases "write_file (os_path_join p [?F]) (Snapshot (heap w a)) (fsys w)")
      case (Inl e)
      from da have False
        unfolding dump_given_unfold Inl sum.case using nofail by (rule notE [rotated])
      then show ?thesis ..
    next
      case (Inr fs)
      note e = da [unfolded dump_given_unfold Inr sum.case]
      have n: "Some p = None \<longrightarrow> isdir ?B (fsys w) \<and> isdir ?Dd (fsys w)"
        by simp
      from Inr n e show ?thesis
        unfolding Some option.case by (intro exI conjI) assumption+
    qed
  next
    case None
    from assms have da: "dump a None filename w = (Inr msg, w1)"
      unfolding None .
    show ?thesis
    proof (cases "if \<not> isdir ?B (fsys w) then mkdir ?B (fsys w) else Inr (fsys w)")
      case (Inl e)
      from da have False
        unfolding dump_default_unfold Inl sum.case using nofail by (rule notE [rotated])
      then show ?thesis ..
    next
      case 1: (Inr fs1)
      show ?thesis
      proof (cases "if \<not> isdir ?Dd fs1 then mkdir ?Dd fs1 else Inr fs1")
        case (Inl e)
        from da have False
          unfolding dump_default_unfold 1 sum.case Inl using nofail by (rule notE [rotated])
        then show ?thesis ..
      next
        case 2: (Inr fs2)
        have b: "isdir ?B fs2"
          using ensure_dir(1) [OF 1] ensure_dir(4) [OF 2] unfolding isdir_def by (rule rev_subsetD)
        have d: "isdir ?Dd fs2" using ensure_dir(1) [OF 2] .
        show ?thesis
        proof (cases "write_file (os_path_join ?Dd [?F]) (Snapshot (heap w a)) fs2")
          case (Inl e)
          from da have False
            unfolding dump_default_unfold 1 2 sum.case Inl using nofail by (rule notE [rotated])
          then show ?thesis ..
        next
          case 3: (Inr fs)
          note e = da [unfolded dump_default_unfold 1 2 3 sum.case]
          have n: "None = None \<longrightarrow> isdir ?B fs2 \<and> isdir ?Dd fs2"
            using b d by simp
          from 3 n e show ?thesis
            unfolding None option.case by (intro exI conjI) assumption+
        qed
      qed
    qed
  qed
  then obtain fs0 fs where
    w: "write_file ?P (Snapshot (heap w a)) fs0 = Inr fs"
    and d: "dpath = None \<longrightarrow> isdir ?B fs0 \<and> isdir ?Dd fs0"
    and e: "(Inr ?M :: error + string, logging ''debug'' ?M (w\<lparr>fsys := fs\<rparr>))
              = (Inr msg, w1)"
    by (elim exE conjE)
  from arg_cong [OF e, of fst] have "(Inr ?M :: error + string) = Inr msg"
    unfolding fst_conv .
  then have m: "msg = ?M"
    unfolding sum.inject by (rule sym)
  from arg_cong [OF e, of snd] have w1: "w1 = logging ''debug'' ?M (w\<lparr>fsys := fs\<rparr>)"
    unfolding snd_conv by (rule sym)
  have f: "fsys w1 = fs" unfolding w1 logging_def by simp
  from w d show "\<exists>fs0. write_file ?P (Snapshot (heap w a)) fs0 = Inr (fsys w1)
               \<and> (dpath = None \<longrightarrow> isdir ?B fs0 \<and> isdir ?Dd fs0)"
    unfolding f by (intro exI conjI) assumption+
  show "heap w1 = heap w" and "home w1 = home w" and "registry w1 = registry w"
    unfolding w1 logging_def by simp_all
  show "msg = ?M" by (rule m)
qed

text \<open>
  C6.  If \<^verbatim>\<open>dump\<close> of container \<open>a\<close> returns, then \<^verbatim>\<open>restore\<close> with the same
  \<^verbatim>\<open>dpath\<close> and \<^verbatim>\<open>filename\<close>, into any container \<open>b\<close> and in any later world with
  the same files and home directory, returns, and afterwards the \<^verbatim>\<open>__dict__\<close> of \<open>b\<close>
  is the \<^verbatim>\<open>__dict__\<close> that \<open>a\<close> had when it was dumped: every attribute of it and no
  other, whatever \<open>b\<close> held before.  No other container changes, and \<^verbatim>\<open>dump\<close> itself
  changes no container.
\<close>

theorem dump_restore_roundtrip:
  assumes "dump a dpath filename w = (Inr msg, w1)"
    and "fsys w2 = fsys w1" and "home w2 = home w"
  shows "(\<exists>msg'. fst (restore b dpath filename w2) = Inr msg')
    \<and> heap (snd (restore b dpath filename w2)) = (heap w2)(b := heap w a)
    \<and> heap w1 = heap w"
proof -
  let ?F = "case filename of None \<Rightarrow> ''es_dump.oemof'' | Some f \<Rightarrow> f"
  let ?D = "case dpath of None \<Rightarrow> os_path_join (home w) [''.oemof'', ''dumps''] | Some p \<Rightarrow> p"
  let ?P = "os_path_join ?D [?F]"
  from dump_Inr(1) [OF assms(1)] obtain fs0 where
    "write_file ?P (Snapshot (heap w a)) fs0 = Inr (fsys w1)" by blast
  then have "read_file ?P (fsys w1) = Inr (Snapshot (heap w a))"
    by (rule read_after_write)
  then have r: "read_file (os_path_join (case dpath of None \<Rightarrow> os_path_join (home w2) [''.oemof'', ''dumps'']
                                         | Some p \<Rightarrow> p) [?F]) (fsys w2)
                  = Inr (Snapshot (heap w a))"
    unfolding assms(2,3) .
  have "restore b dpath filename w2 =
          (Inr (''Attributes restored from: ''
                @ os_path_join (case dpath of None \<Rightarrow> os_path_join (home w2) [''.oemof'', ''dumps'']
                                | Some p \<Rightarrow> p) [?F]),
           logging ''debug'' (''Attributes restored from: ''
                @ os_path_join (case dpath of None \<Rightarrow> os_path_join (home w2) [''.oemof'', ''dumps'']
                                | Some p \<Rightarrow> p) [?F])
             ((logging ''info'' ''Restoring attributes will overwrite existing attributes.'' w2)
                \<lparr>heap := (heap w2)(b := heap w a)\<rparr>))"
    unfolding restore_unfold r by (simp add: pickle_load_def)
  then show ?thesis
    using dump_Inr(2) [OF assms(1)] by (simp add: logging_def)
qed

lemma EnergySystem_init_frame:
  "fsys (snd (EnergySystem_init kwargs w)) = fsys w"
  "home (snd (EnergySystem_init kwargs w)) = home w"
  by (simp_all add: EnergySystem_init_def Let_def)

lemma dump_in_world0:
  "fst (dump 0 None None (snd (EnergySystem_init [(''results'', PDict [])] world0)))
     = Inr ''Attributes dumped to: /home/user/.oemof/dumps/es_dump.oemof''"
proof -
  let ?w = "snd (EnergySystem_init [(''results'', PDict [])] world0)"
  have h: "home ?w = ''/home/user''"
    by (simp add: EnergySystem_init_frame world0_def)
  have f: "fsys ?w = \<lparr>dirs = [''/'', ''/home'', ''/home/user''], files = [], readonly = []\<rparr>"
    by (simp add: EnergySystem_init_frame world0_def)
  have p1: "os_path_join ''/home/user'' [''.oemof''] = ''/home/user/.oemof''"
    and p2: "os_path_join ''/home/user'' [''.oemof'', ''dumps''] = ''/home/user/.oemof/dumps''"
    and p3: "os_path_join ''/home/user/.oemof/dumps'' [''es_dump.oemof'']
              = ''/home/user/.oemof/dumps/es_dump.oemof''"
    by (simp_all add: os_path_join_def join2_def)
  have d1: "dirname ''/home/user/.oemof'' = ''/home/user''"
    and d2: "dirname ''/home/user/.oemof/dumps'' = ''/home/user/.oemof''"
    and d3: "dirname ''/home/user/.oemof/dumps/es_dump.oemof'' = ''/home/user/.oemof/dumps''"
    by (simp_all add: dirname_def)
  show ?thesis
    unfolding dump_default_unfold h f option.case p2 p1 p3
    by (simp add: isdir_def isfile_def mkdir_def write_file_def d1 d2 d3)
qed

theorem dump_restore_roundtrip_witness:
  "fst (dump 0 None None (snd (EnergySystem_init [(''results'', PDict [])] world0)))
     = Inr ''Attributes dumped to: /home/user/.oemof/dumps/es_dump.oemof''
   \<and> heap (snd (restore 1 None None
        (snd (EnergySystem_init []
           (snd (dump 0 None None (snd (EnergySystem_init [(''results'', PDict [])] world0)))))))) 1
     = [(''regions'', PList []), (''entities'', PList []), (''simulation'', PList []),
        (''results'', PDict []), (''time_idx'', PNone)]"
proof -
  let ?w = "snd (EnergySystem_init [(''results'', PDict [])] world0)"
  let ?w1 = "snd (dump 0 None None ?w)"
  let ?w2 = "snd (EnergySystem_init [] ?w1)"
  let ?M = "''Attributes dumped to: /home/user/.oemof/dumps/es_dump.oemof''"
  have d: "dump 0 None None ?w = (Inr ?M, ?w1)"
    using dump_in_world0 by (simp only: prod_eq_iff fst_conv snd_conv simp_thms)
  have f: "fsys ?w2 = fsys ?w1"
    by (rule EnergySystem_init_frame)
  have h: "home ?w2 = home ?w"
    using dump_Inr(3) [OF d] by (simp only: EnergySystem_init_frame)
  have a: "heap ?w 0 = [(''regions'', PList []), (''entities'', PList []), (''simulation'', PList []),
        (''results'', PDict []), (''time_idx'', PNone)]"
    by (simp add: EnergySystem_init_heap world0_def dict_get_def)
  from dump_restore_roundtrip [OF d f h, of 1]
  have "heap (snd (restore 1 None None ?w2)) = (heap ?w2)(1 := heap ?w 0)"
    by (elim conjE)
  then have "heap (snd (restore 1 None None ?w2)) 1 = heap ?w 0"
    by simp
  with a dump_in_world0 show ?thesis
    by (simp only: simp_thms)
qed

lemma join_nested:
  "os_path_join (os_path_join a [x, y]) [z] = os_path_join a [x, y, z]"
  by (simp add: os_path_join_def)

lemma root_paths:
  assumes "home w = ''/''"
  shows "os_path_join (home w) [''.oemof''] = ''/.oemof''"
    and "os_path_join (home w) [''.oemof'', ''dumps''] = ''/.oemof/dumps''"
    and "os_path_join (home w) [''.oemof'', ''dumps'', ''es_dump.oemof'']
           = ''/.oemof/dumps/es_dump.oemof''"
  unfolding assms by (simp_all add: os_path_join_def join2_def)

lemma plain_paths:
  assumes "home w \<noteq> []" and "last (home w) \<noteq> CHR ''/''"
  shows "os_path_join (home w) [''.oemof''] = home w @ ''/.oemof''"
    and "os_path_join (home w) [''.oemof'', ''dumps''] = home w @ ''/.oemof/dumps''"
    and "os_path_join (home w) [''.oemof'', ''dumps'', ''es_dump.oemof'']
           = home w @ ''/.oemof/dumps/es_dump.oemof''"
  using assms by (simp_all add: os_path_join_def join2_def)

lemma dump_default_post:
  assumes d: "dump self None None w = (Inr msg, w1)"
  shows "map_of (files (fsys w1)) (os_path_join (home w) [''.oemof'', ''dumps'', ''es_dump.oemof''])
           = Some (Snapshot (heap w self))"
    and "isdir (os_path_join (home w) [''.oemof'']) (fsys w1)"
    and "isdir (os_path_join (home w) [''.oemof'', ''dumps'']) (fsys w1)"
    and "msg = ''Attributes dumped to: ''
                 @ os_path_join (home w) [''.oemof'', ''dumps'', ''es_dump.oemof'']"
proof -
  let ?P = "os_path_join (home w) [''.oemof'', ''dumps'', ''es_dump.oemof'']"
  from dump_Inr(1) [OF d] obtain fs0 where
    w: "write_file ?P (Snapshot (heap w self)) fs0 = Inr (fsys w1)"
    and b: "isdir (os_path_join (home w) [''.oemof'']) fs0"
    and dd: "isdir (os_path_join (home w) [''.oemof'', ''dumps'']) fs0"
    unfolding option.case join_nested by (elim exE conjE impE) (rule refl)
  from write_file_Inr [OF w]
  have f: "fsys w1 = fs0\<lparr>files := AList.update ?P (Snapshot (heap w self)) (files fs0)\<rparr>"
    by (rule conjunct1)
  show "map_of (files (fsys w1)) ?P = Some (Snapshot (heap w self))"
    unfolding f by (simp add: update_conv')
  show "isdir (os_path_join (home w) [''.oemof'']) (fsys w1)"
    using b unfolding f isdir_def by simp
  show "isdir (os_path_join (home w) [''.oemof'', ''dumps'']) (fsys w1)"
    using dd unfolding f isdir_def by simp
  show "msg = ''Attributes dumped to: '' @ ?P"
    using dump_Inr(5) [OF d] unfolding option.case join_nested .
qed

text \<open>
  With the three paths and their parents as they should be, the default branch returns
  whenever each step can be taken: a directory that is there is left alone, one that is
  missing is made, and the file is written over or made.
\<close>

lemma dump_default_returns_at:
  assumes B: "os_path_join (home w) [''.oemof''] = B"
    and D: "os_path_join (home w) [''.oemof'', ''dumps''] = D"
    and P: "os_path_join (home w) [''.oemof'', ''dumps'', ''es_dump.oemof''] = P"
    and d1: "dirname B = home w" and d2: "dirname D = B" and d3: "dirname P = D"
    and ne: "B \<noteq> D" "B \<noteq> P" "D \<noteq> P"
    and s1: "isdir B (fsys w)
             \<or> isdir (home w) (fsys w) \<and> \<not> isfile B (fsys w) \<and> home w \<notin> set (readonly (fsys w))"
    and s2: "isdir D (fsys w) \<or> \<not> isfile D (fsys w) \<and> B \<notin> set (readonly (fsys w))"
    and s3: "\<not> isdir P (fsys w)"
      "if isfile P (fsys w) then P \<notin> set (readonly (fsys w)) else D \<notin> set (readonly (fsys w))"
  shows "\<exists>msg w1. dump self None None w = (Inr msg, w1)
           \<and> dirs (fsys w1) = dirs (fsys w) @ (if isdir B (fsys w) then [] else [B])
                                @ (if isdir D (fsys w) then [] else [D])"
proof -
  let ?fs1 = "if isdir B (fsys w) then fsys w else (fsys w)\<lparr>dirs := dirs (fsys w) @ [B]\<rparr>"
  let ?fs2 = "if isdir D (fsys w) then ?fs1 else ?fs1\<lparr>dirs := dirs ?fs1 @ [D]\<rparr>"
  let ?fs3 = "?fs2\<lparr>files := AList.update P (Snapshot (heap w self)) (files ?fs2)\<rparr>"
  have P': "os_path_join D [''es_dump.oemof''] = P"
    using P unfolding join_nested [symmetric] D .
  have t1: "(if \<not> isdir B (fsys w) then mkdir B (fsys w) else Inr (fsys w)) = Inr ?fs1"
  proof (cases "isdir B (fsys w)")
    case True
    then show ?thesis by simp
  next
    case False
    with s1 have "isdir (home w) (fsys w)" "\<not> isfile B (fsys w)"
      "home w \<notin> set (readonly (fsys w))"
      by simp_all
    with False show ?thesis
      unfolding mkdir_def d1 by simp
  qed
  have b1: "isdir B ?fs1"
    by (simp add: isdir_def)
  have f1: "files ?fs1 = files (fsys w)" and r1: "readonly ?fs1 = readonly (fsys w)"
    by simp_all
  have i1: "isdir D ?fs1 = isdir D (fsys w)"
    using ne(1) by (auto simp add: isdir_def)
  have t2: "(if \<not> isdir D ?fs1 then mkdir D ?fs1 else Inr ?fs1) = Inr ?fs2"
  proof (cases "isdir D (fsys w)")
    case True
    then show ?thesis
      unfolding i1 by simp
  next
    case False
    with s2 have "\<not> isfile D (fsys w)" "B \<notin> set (readonly (fsys w))"
      by simp_all
    then have "\<not> isfile D ?fs1" "B \<notin> set (readonly ?fs1)"
      unfolding isfile_def f1 r1 by simp_all
    with False b1 show ?thesis
      unfolding i1 mkdir_def d2 by simp
  qed
  have b2: "isdir D ?fs2"
    using i1 by (auto simp add: isdir_def)
  have f2: "files ?fs2 = files (fsys w)" and r2: "readonly ?fs2 = readonly (fsys w)"
    by simp_all
  have np: "\<not> isdir P ?fs2"
    using s3(1) ne(2,3) by (auto simp add: isdir_def)
  have w2: "\<not> (isfile P ?fs2 \<and> P \<in> set (readonly ?fs2))"
    "\<not> (\<not> isfile P ?fs2 \<and> D \<in> set (readonly ?fs2))"
    using s3(2) unfolding isfile_def f2 r2 by (simp_all split: if_splits)
  have t3: "write_file P (Snapshot (heap w self)) ?fs2 = Inr ?fs3"
    unfolding write_file_def d3 using b2 np w2 by simp
  have e: "dump self None None w =
          (Inr (''Attributes dumped to: '' @ P),
           logging ''debug'' (''Attributes dumped to: '' @ P) (w\<lparr>fsys := ?fs3\<rparr>))"
    unfolding dump_default_unfold option.case B D P' t1 sum.case t2 t3 ..
  have "dirs (fsys (logging ''debug'' (''Attributes dumped to: '' @ P) (w\<lparr>fsys := ?fs3\<rparr>)))
          = dirs (fsys w) @ (if isdir B (fsys w) then [] else [B])
              @ (if isdir D (fsys w) then [] else [D])"
    by (simp add: logging_def)
  with e show ?thesis
    by (intro exI conjI)
qed

lemma dump_default_returns:
  assumes h: "home w = ''/'' \<or> home w \<noteq> [] \<and> last (home w) \<noteq> CHR ''/''"
    and s1: "isdir (os_path_join (home w) [''.oemof'']) (fsys w)
             \<or> isdir (home w) (fsys w) \<and> \<not> isfile (os_path_join (home w) [''.oemof'']) (fsys w)
                \<and> home w \<notin> set (readonly (fsys w))"
    and s2: "isdir (os_path_join (home w) [''.oemof'', ''dumps'']) (fsys w)
             \<or> \<not> isfile (os_path_join (home w) [''.oemof'', ''dumps'']) (fsys w)
                \<and> os_path_join (home w) [''.oemof''] \<notin> set (readonly (fsys w))"
    and s3: "\<not> isdir (os_path_join (home w) [''.oemof'', ''dumps'', ''es_dump.oemof'']) (fsys w)"
      "if isfile (os_path_join (home w) [''.oemof'', ''dumps'', ''es_dump.oemof'']) (fsys w)
       then os_path_join (home w) [''.oemof'', ''dumps'', ''es_dump.oemof'']
              \<notin> set (readonly (fsys w))
       else os_path_join (home w) [''.oemof'', ''dumps''] \<notin> set (readonly (fsys w))"
  shows "\<exists>msg w1. dump self None None w = (Inr msg, w1)
           \<and> dirs (fsys w1) =
               dirs (fsys w)
               @ (if isdir (os_path_join (home w) [''.oemof'']) (fsys w) then []
                  else [os_path_join (home w) [''.oemof'']])
               @ (if isdir (os_path_join (home w) [''.oemof'', ''dumps'']) (fsys w) then []
                  else [os_path_join (home w) [''.oemof'', ''dumps'']])"
proof -
  have n1: "CHR ''/'' \<notin> set ''.oemof''" and n2: "CHR ''/'' \<notin> set ''dumps''"
    and n3: "CHR ''/'' \<notin> set ''es_dump.oemof''"
    by simp_all
  from h show ?thesis
  proof
    assume r: "home w = ''/''"
    note p = root_paths [OF r]
    have d1: "dirname ''/.oemof'' = home w"
      unfolding r by (simp add: dirname_def)
    have d2: "dirname ''/.oemof/dumps'' = ''/.oemof''"
      using dirname_append [of "''/.oemof''" "''dumps''"] by simp
    have d3: "dirname ''/.oemof/dumps/es_dump.oemof'' = ''/.oemof/dumps''"
      using dirname_append [of "''/.oemof/dumps''" "''es_dump.oemof''"] by simp
    have ne: "''/.oemof'' \<noteq> ''/.oemof/dumps''" "''/.oemof'' \<noteq> ''/.oemof/dumps/es_dump.oemof''"
      "''/.oemof/dumps'' \<noteq> ''/.oemof/dumps/es_dump.oemof''"
      by simp_all
    show ?thesis
      unfolding p
      by (rule dump_default_returns_at [OF p d1 d2 d3 ne s1 [unfolded p] s2 [unfolded p]
            s3 [unfolded p]])
  next
    assume "home w \<noteq> [] \<and> last (home w) \<noteq> CHR ''/''"
    then have h1: "home w \<noteq> []" and h2: "last (home w) \<noteq> CHR ''/''"
      by simp_all
    note p = plain_paths [OF h1 h2]
    let ?B = "home w @ ''/.oemof''"
    let ?D = "home w @ ''/.oemof/dumps''"
    let ?P = "home w @ ''/.oemof/dumps/es_dump.oemof''"
    have d1: "dirname ?B = home w"
      using dirname_append [OF h1 h2 n1] by simp
    have bne: "?B \<noteq> []" and bl: "last ?B \<noteq> CHR ''/''"
      by simp_all
    have d2: "dirname ?D = ?B"
      using dirname_append [OF bne bl n2] by simp
    have dne: "?D \<noteq> []" and dl: "last ?D \<noteq> CHR ''/''"
      by simp_all
    have d3: "dirname ?P = ?D"
      using dirname_append [OF dne dl n3] by simp
    have ne: "?B \<noteq> ?D" "?B \<noteq> ?P" "?D \<noteq> ?P"
      by simp_all
    show ?thesis
      unfolding p
      by (rule dump_default_returns_at [OF p d1 d2 d3 ne s1 [unfolded p] s2 [unfolded p]
            s3 [unfolded p]])
  qed
qed

lemma dump_default_propagates:
  shows "\<not> isdir (os_path_join (home w) [''.oemof'']) (fsys w)
         \<Longrightarrow> mkdir (os_path_join (home w) [''.oemof'']) (fsys w) = Inl e
         \<Longrightarrow> dump self None None w = (Inl e, w)"
    and "(if \<not> isdir (os_path_join (home w) [''.oemof'']) (fsys w)
          then mkdir (os_path_join (home w) [''.oemof'']) (fsys w) else Inr (fsys w)) = Inr fs1
         \<Longrightarrow> \<not> isdir (os_path_join (home w) [''.oemof'', ''dumps'']) fs1
         \<Longrightarrow> mkdir (os_path_join (home w) [''.oemof'', ''dumps'']) fs1 = Inl e
         \<Longrightarrow> dump self None None w = (Inl e, w\<lparr>fsys := fs1\<rparr>)"
    and "(if \<not> isdir (os_path_join (home w) [''.oemof'']) (fsys w)
          then mkdir (os_path_join (home w) [''.oemof'']) (fsys w) else Inr (fsys w)) = Inr fs1
         \<Longrightarrow> (if \<not> isdir (os_path_join (home w) [''.oemof'', ''dumps'']) fs1
              then mkdir (os_path_join (home w) [''.oemof'', ''dumps'']) fs1 else Inr fs1) = Inr fs2
         \<Longrightarrow> write_file (os_path_join (home w) [''.oemof'', ''dumps'', ''es_dump.oemof''])
               (Snapshot (heap w self)) fs2 = Inl e
         \<Longrightarrow> dump self None None w = (Inl e, w\<lparr>fsys := fs2\<rparr>)"
proof -
  show "dump self None None w = (Inl e, w)"
    if "\<not> isdir (os_path_join (home w) [''.oemof'']) (fsys w)"
      "mkdir (os_path_join (home w) [''.oemof'']) (fsys w) = Inl e"
  proof -
    from that have s1: "(if \<not> isdir (os_path_join (home w) [''.oemof'']) (fsys w)
          then mkdir (os_path_join (home w) [''.oemof'']) (fsys w) else Inr (fsys w)) = Inl e"
      by simp
    show ?thesis
      unfolding dump_default_unfold s1 sum.case ..
  qed
  show "dump self None None w = (Inl e, w\<lparr>fsys := fs1\<rparr>)"
    if s1: "(if \<not> isdir (os_path_join (home w) [''.oemof'']) (fsys w)
          then mkdir (os_path_join (home w) [''.oemof'']) (fsys w) else Inr (fsys w)) = Inr fs1"
      and "\<not> isdir (os_path_join (home w) [''.oemof'', ''dumps'']) fs1"
      "mkdir (os_path_join (home w) [''.oemof'', ''dumps'']) fs1 = Inl e"
  proof -
    from that(2,3) have s2: "(if \<not> isdir (os_path_join (home w) [''.oemof'', ''dumps'']) fs1
              then mkdir (os_path_join (home w) [''.oemof'', ''dumps'']) fs1 else Inr fs1) = Inl e"
      by simp
    show ?thesis
      unfolding dump_default_unfold s1 sum.case s2 ..
  qed
  show "dump self None None w = (Inl e, w\<lparr>fsys := fs2\<rparr>)"
    if s1: "(if \<not> isdir (os_path_join (home w) [''.oemof'']) (fsys w)
          then mkdir (os_path_join (home w) [''.oemof'']) (fsys w) else Inr (fsys w)) = Inr fs1"
      and s2: "(if \<not> isdir (os_path_join (home w) [''.oemof'', ''dumps'']) fs1
              then mkdir (os_path_join (home w) [''.oemof'', ''dumps'']) fs1 else Inr fs1) = Inr fs2"
      and s3: "write_file (os_path_join (home w) [''.oemof'', ''dumps'', ''es_dump.oemof''])
               (Snapshot (heap w self)) fs2 = Inl e"
    unfolding dump_default_unfold option.case join_nested s1 s2 s3 sum.case ..
qed

lemma restore_default_reads:
  shows "read_file (os_path_join (home w) [''.oemof'', ''dumps'', ''es_dump.oemof'']) (fsys w) = Inl e
           \<Longrightarrow> fst (restore b None None w) = Inl e"
    and "read_file (os_path_join (home w) [''.oemof'', ''dumps'', ''es_dump.oemof'']) (fsys w)
           = Inr (Snapshot d)
           \<Longrightarrow> fst (restore b None None w)
                 = Inr (''Attributes restored from: ''
                        @ os_path_join (home w) [''.oemof'', ''dumps'', ''es_dump.oemof''])
               \<and> heap (snd (restore b None None w)) = (heap w)(b := d)"
proof -
  show "fst (restore b None None w) = Inl e"
    if r: "read_file (os_path_join (home w) [''.oemof'', ''dumps'', ''es_dump.oemof'']) (fsys w)
             = Inl e"
    unfolding restore_unfold option.case join_nested r by simp
  show "fst (restore b None None w)
                 = Inr (''Attributes restored from: ''
                        @ os_path_join (home w) [''.oemof'', ''dumps'', ''es_dump.oemof''])
               \<and> heap (snd (restore b None None w)) = (heap w)(b := d)"
    if r: "read_file (os_path_join (home w) [''.oemof'', ''dumps'', ''es_dump.oemof'']) (fsys w)
             = Inr (Snapshot d)"
    unfolding restore_unfold option.case join_nested r by (simp add: pickle_load_def logging_def)
qed

text \<open>
  C7.  Without arguments \<^verbatim>\<open>dump\<close> works on the path joined from the home directory,
  \<^verbatim>\<open>.oemof\<close>, \<^verbatim>\<open>dumps\<close> and \<^verbatim>\<open>es_dump.oemof\<close>, whatever the home directory is.  Whenever it
  returns, that file holds the snapshot of the container, both directories exist, and
  the message names the file.  It does return, for a home directory that is \<^verbatim>\<open>/\<close> or
  does not end in a slash, whenever each step can be taken: a directory that exists is
  left alone, a missing one is made (its parent exists and is writable, and no file
  has its name), and the file is written over or made; the directories afterwards are
  the old ones followed by the missing ones, and no others.  An error of the first
  \<^verbatim>\<open>mkdir\<close>, of the second \<^verbatim>\<open>mkdir\<close> or of the write, a permission error among them, is the
  error of \<^verbatim>\<open>dump\<close>.  \<^verbatim>\<open>restore\<close> without arguments reads the same path: it fails as the
  read fails, and a snapshot found there becomes the container's \<^verbatim>\<open>__dict__\<close>.  The
  path is \<^verbatim>\<open><home>/.oemof/dumps/es_dump.oemof\<close>, and \<^verbatim>\<open>/.oemof/dumps/es_dump.oemof\<close> for the
  home directory \<^verbatim>\<open>/\<close>.
\<close>

theorem dump_default_location:
  "(\<forall>msg w1. dump self None None w = (Inr msg, w1) \<longrightarrow>
        map_of (files (fsys w1)) (os_path_join (home w) [''.oemof'', ''dumps'', ''es_dump.oemof''])
          = Some (Snapshot (heap w self))
        \<and> isdir (os_path_join (home w) [''.oemof'']) (fsys w1)
        \<and> isdir (os_path_join (home w) [''.oemof'', ''dumps'']) (fsys w1)
        \<and> msg = ''Attributes dumped to: ''
                  @ os_path_join (home w) [''.oemof'', ''dumps'', ''es_dump.oemof''])
   \<and> ((home w = ''/'' \<or> home w \<noteq> [] \<and> last (home w) \<noteq> CHR ''/'')
       \<and> (isdir (os_path_join (home w) [''.oemof'']) (fsys w)
          \<or> isdir (home w) (fsys w) \<and> \<not> isfile (os_path_join (home w) [''.oemof'']) (fsys w)
             \<and> home w \<notin> set (readonly (fsys w)))
       \<and> (isdir (os_path_join (home w) [''.oemof'', ''dumps'']) (fsys w)
          \<or> \<not> isfile (os_path_join (home w) [''.oemof'', ''dumps'']) (fsys w)
             \<and> os_path_join (home w) [''.oemof''] \<notin> set (readonly (fsys w)))
       \<and> \<not> isdir (os_path_join (home w) [''.oemof'', ''dumps'', ''es_dump.oemof'']) (fsys w)
       \<and> (if isfile (os_path_join (home w) [''.oemof'', ''dumps'', ''es_dump.oemof'']) (fsys w)
          then os_path_join (home w) [''.oemof'', ''dumps'', ''es_dump.oemof'']
                 \<notin> set (readonly (fsys w))
          else os_path_join (home w) [''.oemof'', ''dumps''] \<notin> set (readonly (fsys w)))
       \<longrightarrow> (\<exists>msg w1. dump self None None w = (Inr msg, w1)
              \<and> dirs (fsys w1) =
                  dirs (fsys w)
                  @ (if isdir (os_path_join (home w) [''.oemof'']) (fsys w) then []
                     else [os_path_join (home w) [''.oemof'']])
                  @ (if isdir (os_path_join (home w) [''.oemof'', ''dumps'']) (fsys w) then []
                     else [os_path_join (home w) [''.oemof'', ''dumps'']])))
   \<and> (\<forall>e. \<not> isdir (os_path_join (home w) [''.oemof'']) (fsys w)
          \<and> mkdir (os_path_join (home w) [''.oemof'']) (fsys w) = Inl e
        \<longrightarrow> dump self None None w = (Inl e, w))
   \<and> (\<forall>e fs1. (if \<not> isdir (os_path_join (home w) [''.oemof'']) (fsys w)
                then mkdir (os_path_join (home w) [''.oemof'']) (fsys w) else Inr (fsys w))
                 = Inr fs1
          \<and> \<not> isdir (os_path_join (home w) [''.oemof'', ''dumps'']) fs1
          \<and> mkdir (os_path_join (home w) [''.oemof'', ''dumps'']) fs1 = Inl e
        \<longrightarrow> dump self None None w = (Inl e, w\<lparr>fsys := fs1\<rparr>))
   \<and> (\<forall>e fs1 fs2. (if \<not> isdir (os_path_join (home w) [''.oemof'']) (fsys w)
                then mkdir (os_path_join (home w) [''.oemof'']) (fsys w) else Inr (fsys w))
                 = Inr fs1
          \<and> (if \<not> isdir (os_path_join (home w) [''.oemof'', ''dumps'']) fs1
              then mkdir (os_path_join (home w) [''.oemof'', ''dumps'']) fs1 else Inr fs1)
                 = Inr fs2
          \<and> write_file (os_path_join (home w) [''.oemof'', ''dumps'', ''es_dump.oemof''])
                (Snapshot (heap w self)) fs2 = Inl e
        \<longrightarrow> dump self None None w = (Inl e, w\<lparr>fsys := fs2\<rparr>))
   \<and> (\<forall>e. read_file (os_path_join (home w) [''.oemof'', ''dumps'', ''es_dump.oemof'']) (fsys w)
            = Inl e
        \<longrightarrow> fst (restore b None None w) = Inl e)
   \<and> (\<forall>d. read_file (os_path_join (home w) [''.oemof'', ''dumps'', ''es_dump.oemof'']) (fsys w)
            = Inr (Snapshot d)
        \<longrightarrow> fst (restore b None None w)
              = Inr (''Attributes restored from: ''
                     @ os_path_join (home w) [''.oemof'', ''dumps'', ''es_dump.oemof''])
            \<and> heap (snd (restore b None None w)) = (heap w)(b := d))
   \<and> (home w \<noteq> [] \<and> last (home w) \<noteq> CHR ''/''
        \<longrightarrow> os_path_join (home w) [''.oemof'', ''dumps'', ''es_dump.oemof'']
              = home w @ ''/.oemof/dumps/es_dump.oemof'')
   \<and> (home w = ''/''
        \<longrightarrow> os_path_join (home w) [''.oemof'', ''dumps'', ''es_dump.oemof'']
              = ''/.oemof/dumps/es_dump.oemof'')"
proof (intro conjI allI impI)
  fix msg w1
  assume d: "dump self None None w = (Inr msg, w1)"
  show "map_of (files (fsys w1)) (os_path_join (home w) [''.oemof'', ''dumps'', ''es_dump.oemof''])
          = Some (Snapshot (heap w self))"
    by (rule dump_default_post(1) [OF d])
  show "isdir (os_path_join (home w) [''.oemof'']) (fsys w1)"
    by (rule dump_default_post(2) [OF d])
  show "isdir (os_path_join (home w) [''.oemof'', ''dumps'']) (fsys w1)"
    by (rule dump_default_post(3) [OF d])
  show "msg = ''Attributes dumped to: ''
                @ os_path_join (home w) [''.oemof'', ''dumps'', ''es_dump.oemof'']"
    by (rule dump_default_post(4) [OF d])
next
  assume a: "(home w = ''/'' \<or> home w \<noteq> [] \<and> last (home w) \<noteq> CHR ''/'')
       \<and> (isdir (os_path_join (home w) [''.oemof'']) (fsys w)
          \<or> isdir (home w) (fsys w) \<and> \<not> isfile (os_path_join (home w) [''.oemof'']) (fsys w)
             \<and> home w \<notin> set (readonly (fsys w)))
       \<and> (isdir (os_path_join (home w) [''.oemof'', ''dumps'']) (fsys w)
          \<or> \<not> isfile (os_path_join (home w) [''.oemof'', ''dumps'']) (fsys w)
             \<and> os_path_join (home w) [''.oemof''] \<notin> set (readonly (fsys w)))
       \<and> \<not> isdir (os_path_join (home w) [''.oemof'', ''dumps'', ''es_dump.oemof'']) (fsys w)
       \<and> (if isfile (os_path_join (home w) [''.oemof'', ''dumps'', ''es_dump.oemof'']) (fsys w)
          then os_path_join (home w) [''.oemof'', ''dumps'', ''es_dump.oemof'']
                 \<notin> set (readonly (fsys w))
          else os_path_join (home w) [''.oemof'', ''dumps''] \<notin> set (readonly (fsys w)))"
  show "\<exists>msg w1. dump self None None w = (Inr msg, w1)
              \<and> dirs (fsys w1) =
                  dirs (fsys w)
                  @ (if isdir (os_path_join (home w) [''.oemof'']) (fsys w) then []
                     else [os_path_join (home w) [''.oemof'']])
                  @ (if isdir (os_path_join (home w) [''.oemof'', ''dumps'']) (fsys w) then []
                     else [os_path_join (home w) [''.oemof'', ''dumps'']])"
    by (rule dump_default_returns
          [OF a [THEN conjunct1] a [THEN conjunct2, THEN conjunct1]
              a [THEN conjunct2, THEN conjunct2, THEN conjunct1]
              a [THEN conjunct2, THEN conjunct2, THEN conjunct2, THEN conjunct1]
              a [THEN conjunct2, THEN conjunct2, THEN conjunct2, THEN conjunct2]])
next
  fix e
  assume "\<not> isdir (os_path_join (home w) [''.oemof'']) (fsys w)
          \<and> mkdir (os_path_join (home w) [''.oemof'']) (fsys w) = Inl e"
  then show "dump self None None w = (Inl e, w)"
    by (elim conjE) (rule dump_default_propagates(1))
next
  fix e fs1
  assume "(if \<not> isdir (os_path_join (home w) [''.oemof'']) (fsys w)
                then mkdir (os_path_join (home w) [''.oemof'']) (fsys w) else Inr (fsys w))
                 = Inr fs1
          \<and> \<not> isdir (os_path_join (home w) [''.oemof'', ''dumps'']) fs1
          \<and> mkdir (os_path_join (home w) [''.oemof'', ''dumps'']) fs1 = Inl e"
  then show "dump self None None w = (Inl e, w\<lparr>fsys := fs1\<rparr>)"
    by (elim conjE) (rule dump_default_propagates(2))
next
  fix e fs1 fs2
  assume "(if \<not> isdir (os_path_join (home w) [''.oemof'']) (fsys w)
                then mkdir (os_path_join (home w) [''.oemof'']) (fsys w) else Inr (fsys w))
                 = Inr fs1
          \<and> (if \<not> isdir (os_path_join (home w) [''.oemof'', ''dumps'']) fs1
              then mkdir (os_path_join (home w) [''.oemof'', ''dumps'']) fs1 else Inr fs1)
                 = Inr fs2
          \<and> write_file (os_path_join (home w) [''.oemof'', ''dumps'', ''es_dump.oemof''])
                (Snapshot (heap w self)) fs2 = Inl e"
  then show "dump self None None w = (Inl e, w\<lparr>fsys := fs2\<rparr>)"
    by (elim conjE) (rule dump_default_propagates(3))
next
  fix e
  assume "read_file (os_path_join (home w) [''.oemof'', ''dumps'', ''es_dump.oemof'']) (fsys w)
            = Inl e"
  then show "fst (restore b None None w) = Inl e"
    by (rule restore_default_reads(1))
next
  fix d
  assume r: "read_file (os_path_join (home w) [''.oemof'', ''dumps'', ''es_dump.oemof'']) (fsys w)
            = Inr (Snapshot d)"
  show "fst (restore b None None w)
              = Inr (''Attributes restored from: ''
                     @ os_path_join (home w) [''.oemof'', ''dumps'', ''es_dump.oemof''])"
    using restore_default_reads(2) [OF r] by (rule conjunct1)
  show "heap (snd (restore b None None w)) = (heap w)(b := d)"
    using restore_default_reads(2) [OF r] by (rule conjunct2)
next
  assume "home w \<noteq> [] \<and> last (home w) \<noteq> CHR ''/''"
  then show "os_path_join (home w) [''.oemof'', ''dumps'', ''es_dump.oemof'']
              = home w @ ''/.oemof/dumps/es_dump.oemof''"
    by (elim conjE) (rule plain_paths(3))
next
  assume "home w = ''/''"
  then show "os_path_join (home w) [''.oemof'', ''dumps'', ''es_dump.oemof'']
              = ''/.oemof/dumps/es_dump.oemof''"
    by (rule root_paths(3))
qed

lemma dump_world0_result:
  "dump 0 None None (snd (EnergySystem_init [(''results'', PDict [])] world0)) =
     (Inr ''Attributes dumped to: /home/user/.oemof/dumps/es_dump.oemof'',
      logging ''debug'' ''Attributes dumped to: /home/user/.oemof/dumps/es_dump.oemof''
        ((snd (EnergySystem_init [(''results'', PDict [])] world0))
           \<lparr>fsys := \<lparr>dirs = [''/'', ''/home'', ''/home/user'', ''/home/user/.oemof'',
                             ''/home/user/.oemof/dumps''],
                     files = [(''/home/user/.oemof/dumps/es_dump.oemof'',
                               Snapshot (heap (snd (EnergySystem_init [(''results'', PDict [])]
                                                      world0)) 0))],
                     readonly = []\<rparr>\<rparr>))"
proof -
  let ?w = "snd (EnergySystem_init [(''results'', PDict [])] world0)"
  have h: "home ?w = ''/home/user''"
    by (simp add: EnergySystem_init_frame world0_def)
  have f: "fsys ?w = \<lparr>dirs = [''/'', ''/home'', ''/home/user''], files = [], readonly = []\<rparr>"
    by (simp add: EnergySystem_init_frame world0_def)
  have p1: "os_path_join ''/home/user'' [''.oemof''] = ''/home/user/.oemof''"
    and p2: "os_path_join ''/home/user'' [''.oemof'', ''dumps''] = ''/home/user/.oemof/dumps''"
    and p3: "os_path_join ''/home/user/.oemof/dumps'' [''es_dump.oemof'']
              = ''/home/user/.oemof/dumps/es_dump.oemof''"
    by (simp_all add: os_path_join_def join2_def)
  have d1: "dirname ''/home/user/.oemof'' = ''/home/user''"
    and d2: "dirname ''/home/user/.oemof/dumps'' = ''/home/user/.oemof''"
    and d3: "dirname ''/home/user/.oemof/dumps/es_dump.oemof'' = ''/home/user/.oemof/dumps''"
    by (simp_all add: dirname_def)
  show ?thesis
    unfolding dump_default_unfold h f option.case p2 p1 p3
    by (simp add: isdir_def isfile_def mkdir_def write_file_def d1 d2 d3)
qed


theorem dump_default_location_witness:
  "fst (dump 0 None None (snd (EnergySystem_init [(''results'', PDict [])] world0)))
     = Inr ''Attributes dumped to: /home/user/.oemof/dumps/es_dump.oemof''
   \<and> map_of (files (fsys (snd (dump 0 None None
          (snd (EnergySystem_init [(''results'', PDict [])] world0))))))
        ''/home/user/.oemof/dumps/es_dump.oemof''
     = Some (Snapshot [(''regions'', PList []), (''entities'', PList []),
                       (''simulation'', PList []), (''results'', PDict []),
                       (''time_idx'', PNone)])
   \<and> dirs (fsys (snd (dump 0 None None
          (snd (EnergySystem_init [(''results'', PDict [])] world0)))))
     = [''/'', ''/home'', ''/home/user'', ''/home/user/.oemof'', ''/home/user/.oemof/dumps'']
   \<and> fst (dump 0 None None (snd (dump 0 None None
          (snd (EnergySystem_init [(''results'', PDict [])] world0)))))
     = Inr ''Attributes dumped to: /home/user/.oemof/dumps/es_dump.oemof''
   \<and> dirs (fsys (snd (dump 0 None None (snd (dump 0 None None
          (snd (EnergySystem_init [(''results'', PDict [])] world0)))))))
     = [''/'', ''/home'', ''/home/user'', ''/home/user/.oemof'', ''/home/user/.oemof/dumps'']
   \<and> dump 0 None None (world0\<lparr>fsys := (fsys world0)\<lparr>readonly := [''/home/user'']\<rparr>\<rparr>)
     = (Inl (PermissionError ''/home/user/.oemof''),
        world0\<lparr>fsys := (fsys world0)\<lparr>readonly := [''/home/user'']\<rparr>\<rparr>)
   \<and> map_of (files (fsys (snd (dump 0 None None (world0\<lparr>home := ''/''\<rparr>)))))
        ''/.oemof/dumps/es_dump.oemof''
     = Some (Snapshot [])"
proof -
  let ?W = "snd (EnergySystem_init [(''results'', PDict [])] world0)"
  let ?W1 = "snd (dump 0 None None ?W)"
  let ?W2 = "snd (dump 0 None None ?W1)"
  let ?R = "world0\<lparr>fsys := (fsys world0)\<lparr>readonly := [''/home/user'']\<rparr>\<rparr>"
  let ?Z = "world0\<lparr>home := ''/''\<rparr>"
  let ?M = "''Attributes dumped to: /home/user/.oemof/dumps/es_dump.oemof''"
  let ?five = "[''/'', ''/home'', ''/home/user'', ''/home/user/.oemof'', ''/home/user/.oemof/dumps'']"
  let ?A = "[(''regions'', PList []), (''entities'', PList []), (''simulation'', PList []),
             (''results'', PDict []), (''time_idx'', PNone)]"
  have a: "heap ?W 0 = ?A"
    by (simp add: EnergySystem_init_heap world0_def dict_get_def)
  have j: "os_path_join ''/home/user'' [''.oemof''] = ''/home/user/.oemof''"
    "os_path_join ''/home/user'' [''.oemof'', ''dumps''] = ''/home/user/.oemof/dumps''"
    "os_path_join ''/home/user'' [''.oemof'', ''dumps'', ''es_dump.oemof'']
       = ''/home/user/.oemof/dumps/es_dump.oemof''"
    "os_path_join ''/'' [''.oemof''] = ''/.oemof''"
    "os_path_join ''/'' [''.oemof'', ''dumps''] = ''/.oemof/dumps''"
    "os_path_join ''/'' [''.oemof'', ''dumps'', ''es_dump.oemof''] = ''/.oemof/dumps/es_dump.oemof''"
    by (simp_all add: os_path_join_def join2_def)
  \<comment> \<open>the first dump, into an empty home directory\<close>
  have hW: "home ?W = ''/home/user''"
    by (simp add: EnergySystem_init_frame world0_def)
  have fW: "fsys ?W = \<lparr>dirs = [''/'', ''/home'', ''/home/user''], files = [], readonly = []\<rparr>"
    by (simp add: EnergySystem_init_frame world0_def)
  have c1: "fst (dump 0 None None ?W) = Inr ?M"
    by (simp add: dump_world0_result)
  have d: "dump 0 None None ?W = (Inr ?M, ?W1)"
    by (simp add: dump_world0_result)
  from dump_default_location [where self = 0 and w = ?W, THEN conjunct1, rule_format, OF d]
  have c2: "map_of (files (fsys ?W1)) ''/home/user/.oemof/dumps/es_dump.oemof'' = Some (Snapshot ?A)"
    unfolding hW j a by (rule conjunct1)
  from dump_default_location [where self = 0 and w = ?W, THEN conjunct2, THEN conjunct1]
  have "\<exists>msg w1. dump 0 None None ?W = (Inr msg, w1) \<and> dirs (fsys w1) = ?five"
    unfolding hW j fW by (simp add: isdir_def isfile_def)
  then have c3: "dirs (fsys ?W1) = ?five"
    by auto
  \<comment> \<open>the second dump, with the directories and the file there\<close>
  have h1: "home ?W1 = ''/home/user''"
    by (simp add: dump_world0_result logging_def hW)
  have f1: "fsys ?W1 = \<lparr>dirs = ?five,
                         files = [(''/home/user/.oemof/dumps/es_dump.oemof'', Snapshot ?A)],
                         readonly = []\<rparr>"
    by (simp add: dump_world0_result logging_def a)
  from dump_default_location [where self = 0 and w = ?W1, THEN conjunct2, THEN conjunct1]
  have "\<exists>msg w1. dump 0 None None ?W1 = (Inr msg, w1) \<and> dirs (fsys w1) = ?five"
    unfolding h1 j f1 by (simp add: isdir_def isfile_def)
  then obtain msg2 w2 where e2: "dump 0 None None ?W1 = (Inr msg2, w2)"
    and d2: "dirs (fsys w2) = ?five"
    by blast
  from dump_default_location [where self = 0 and w = ?W1, THEN conjunct1, rule_format, OF e2]
  have "msg2 = ?M"
    unfolding h1 j by simp
  with e2 d2 have c4: "fst (dump 0 None None ?W1) = Inr ?M" and c5: "dirs (fsys ?W2) = ?five"
    by simp_all
  \<comment> \<open>a home directory without write permission\<close>
  have hR: "home ?R = ''/home/user''"
    by (simp add: world0_def)
  have fR: "fsys ?R = \<lparr>dirs = [''/'', ''/home'', ''/home/user''], files = [],
                        readonly = [''/home/user'']\<rparr>"
    by (simp add: world0_def)
  have d1: "dirname ''/home/user/.oemof'' = ''/home/user''"
    by (simp add: dirname_def)
  have m: "\<not> isdir (os_path_join (home ?R) [''.oemof'']) (fsys ?R)
           \<and> mkdir (os_path_join (home ?R) [''.oemof'']) (fsys ?R)
               = Inl (PermissionError ''/home/user/.oemof'')"
    unfolding hR fR j by (simp add: isdir_def isfile_def mkdir_def d1)
  from dump_default_location [where self = 0 and w = ?R, THEN conjunct2, THEN conjunct2,
      THEN conjunct1, rule_format, OF m]
  have c6: "dump 0 None None ?R = (Inl (PermissionError ''/home/user/.oemof''), ?R)" .
  \<comment> \<open>the root directory as home\<close>
  have hZ: "home ?Z = ''/''"
    by simp
  have fZ: "fsys ?Z = \<lparr>dirs = [''/'', ''/home'', ''/home/user''], files = [], readonly = []\<rparr>"
    by (simp add: world0_def)
  have aZ: "heap ?Z 0 = []"
    by (simp add: world0_def)
  from dump_default_location [where self = 0 and w = ?Z, THEN conjunct2, THEN conjunct1]
  have "\<exists>msg w1. dump 0 None None ?Z = (Inr msg, w1)
          \<and> dirs (fsys w1) = [''/'', ''/home'', ''/home/user'', ''/.oemof'', ''/.oemof/dumps'']"
    unfolding hZ j fZ by (simp add: isdir_def isfile_def)
  then obtain msg3 w3 where e3: "dump 0 None None ?Z = (Inr msg3, w3)"
    by blast
  from dump_default_location [where self = 0 and w = ?Z, THEN conjunct1, rule_format, OF e3]
  have "map_of (files (fsys w3)) ''/.oemof/dumps/es_dump.oemof'' = Some (Snapshot [])"
    unfolding hZ j aZ by (rule conjunct1)
  with e3 have c7: "map_of (files (fsys (snd (dump 0 None None ?Z)))) ''/.oemof/dumps/es_dump.oemof''
                      = Some (Snapshot [])"
    by simp
  from c1 c2 c3 c4 c5 c6 c7 show ?thesis
    by (intro conjI)
qed

section \<open>Properties of \<^verbatim>\<open>Region.code\<close>\<close>

lemma Region_init_fields:
  assumes "Region_init kwargs = Inr r"
  shows "name r = dict_get kwargs ''name'' PNone"
    and "private_code r = dict_get kwargs ''code'' PNone"
    and "geom r = dict_get kwargs ''geom'' PNone"
  using assms
  by (auto simp add: Region_init_def add_entities_def split: sum.splits prod.splits)

lemma split1_cases:
  "split1 s = (if CHR '' '' \<in> set s
               then [takeWhile (\<lambda>c. c \<noteq> CHR '' '') s, tl (dropWhile (\<lambda>c. c \<noteq> CHR '' '') s)]
               else [s])"
proof (cases "dropWhile (\<lambda>c. c \<noteq> CHR '' '') s")
  case Nil
  then have "\<forall>x \<in> set s. x \<noteq> CHR '' ''"
    by (simp only: dropWhile_eq_Nil_conv)
  then have "CHR '' '' \<notin> set s"
    by blast
  then show ?thesis
    unfolding split1_def Nil by simp
next
  case (Cons x xs)
  have "dropWhile (\<lambda>c. c \<noteq> CHR '' '') s \<noteq> []"
    unfolding Cons by blast
  then have "\<not> (\<forall>x \<in> set s. x \<noteq> CHR '' '')"
    unfolding dropWhile_eq_Nil_conv .
  then have "CHR '' '' \<in> set s"
    by blast
  then show ?thesis
    unfolding split1_def Cons by simp
qed

lemma Region_code_value:
  assumes "private_code r = PNone" and "name r = PStr s"
  shows "Region_code U r =
           (Inr (PStr (if CHR '' '' \<in> set (replace_char (CHR ''_'') (CHR '' '') s)
                       then abbreviate U (takeWhile (\<lambda>c. c \<noteq> CHR '' '')
                                            (replace_char (CHR ''_'') (CHR '' '') s))
                            @ abbreviate U (tl (dropWhile (\<lambda>c. c \<noteq> CHR '' '')
                                                  (replace_char (CHR ''_'') (CHR '' '') s)))
                       else abbreviate U (replace_char (CHR ''_'') (CHR '' '') s))),
            r\<lparr>private_code :=
                 PStr (if CHR '' '' \<in> set (replace_char (CHR ''_'') (CHR '' '') s)
                       then abbreviate U (takeWhile (\<lambda>c. c \<noteq> CHR '' '')
                                            (replace_char (CHR ''_'') (CHR '' '') s))
                            @ abbreviate U (tl (dropWhile (\<lambda>c. c \<noteq> CHR '' '')
                                                  (replace_char (CHR ''_'') (CHR '' '') s)))
                       else abbreviate U (replace_char (CHR ''_'') (CHR '' '') s))\<rparr>)"
  unfolding Region_code_def Let_def split1_cases using assms by simp

lemma Region_code_cached:
  assumes "private_code r \<noteq> PNone"
  shows "Region_code U r = (Inr (private_code r), r)"
  using assms by (simp add: Region_code_def)

lemma abbreviate_Nil: "U [] = [] \<Longrightarrow> abbreviate U [] = []"
  by (simp add: abbreviate_def)

lemma segments_word:
  "\<forall>c \<in> set a. \<not> is_space c \<Longrightarrow>
   segments cur a = (if cur @ a = [] then [] else [cur @ a])"
  by (induction a arbitrary: cur) simp_all

lemma segments_two:
  "\<forall>c \<in> set a. \<not> is_space c \<Longrightarrow> is_space x \<Longrightarrow>
   segments cur (a @ x # b) = (if cur @ a = [] then [] else [cur @ a]) @ segments [] b"
  by (induction a arbitrary: cur) simp_all

lemma replace_char_id: "old \<notin> set s \<Longrightarrow> replace_char old new s = s"
  by (induction s) (auto simp add: replace_char_def)

lemma spec_code_word:
  assumes "\<forall>c \<in> set a. \<not> is_space c" and "U [] = []"
  shows "spec_code U a = abbreviate U a"
  unfolding spec_code_def segments_word [OF assms(1)]
  by (simp add: abbreviate_Nil [where U = U, OF assms(2)])

lemma spec_code_two_words:
  assumes "\<forall>c \<in> set a. \<not> is_space c" and "\<forall>c \<in> set b. \<not> is_space c" and "is_space x"
    and "U [] = []"
  shows "spec_code U (a @ x # b) = abbreviate U a @ abbreviate U b"
  unfolding spec_code_def segments_two [OF assms(1,3)] segments_word [OF assms(2)]
  by (simp add: abbreviate_Nil [where U = U, OF assms(4)])

lemma split_at_first:
  assumes "sp \<in> set s"
  shows "s = takeWhile (\<lambda>c. c \<noteq> sp) s @ sp # tl (dropWhile (\<lambda>c. c \<noteq> sp) s)"
proof -
  have ne: "dropWhile (\<lambda>c. c \<noteq> sp) s \<noteq> []"
    using assms unfolding dropWhile_eq_Nil_conv by blast
  then have "hd (dropWhile (\<lambda>c. c \<noteq> sp) s) = sp"
    using hd_dropWhile [of "\<lambda>c. c \<noteq> sp" s] by blast
  with ne have "dropWhile (\<lambda>c. c \<noteq> sp) s = sp # tl (dropWhile (\<lambda>c. c \<noteq> sp) s)"
    by (metis list.collapse)
  then show ?thesis
    by (metis takeWhile_dropWhile_id)
qed

lemma code_agrees_with_spec:
  assumes w: "\<forall>c \<in> set s. is_space c \<longrightarrow> c = sp" and sp: "is_space sp"
    and k: "count_list s sp \<le> 1" and e: "U [] = []"
  shows "(if sp \<in> set s
          then abbreviate U (takeWhile (\<lambda>c. c \<noteq> sp) s)
               @ abbreviate U (tl (dropWhile (\<lambda>c. c \<noteq> sp) s))
          else abbreviate U s) = spec_code U s"
proof (cases "sp \<in> set s")
  case False
  with w have "\<forall>c \<in> set s. \<not> is_space c" by blast
  from spec_code_word [where U = U, OF this e] False show ?thesis by simp
next
  case True
  let ?a = "takeWhile (\<lambda>c. c \<noteq> sp) s"
  let ?b = "tl (dropWhile (\<lambda>c. c \<noteq> sp) s)"
  note s = split_at_first [OF True]
  have na: "sp \<notin> set ?a"
    using set_takeWhileD [of sp "\<lambda>c. c \<noteq> sp" s] by blast
  have "count_list (?a @ sp # ?b) sp \<le> 1"
    using k s by simp
  then have "count_list ?b sp = 0"
    by simp
  then have nb: "sp \<notin> set ?b"
    using count_list_0_iff [of ?b sp] by blast
  have sub: "set ?a \<subseteq> set s" "set ?b \<subseteq> set s"
    using s by (metis Un_upper1 set_append, metis Un_upper2 set_append set_subset_Cons subset_trans)
  from w na sub(1) have a: "\<forall>c \<in> set ?a. \<not> is_space c" by blast
  from w nb sub(2) have b: "\<forall>c \<in> set ?b. \<not> is_space c" by blast
  have "spec_code U s = spec_code U (?a @ sp # ?b)"
    using s by simp
  also have "\<dots> = abbreviate U ?a @ abbreviate U ?b"
    by (rule spec_code_two_words [where U = U, OF a b sp e])
  finally show ?thesis
    using True by simp
qed

text \<open>
  C9, as the code has it, for whatever \<^verbatim>\<open>str.upper\<close> does.  For a region constructed
  without a code and with a string as name: underscores in the name count as spaces, and
  the name is cut once, at its first space, into at most two parts.  Each part gives the
  upper case of its first character, if it has one, followed by its second and third
  character, and the code is these put together.  The code is computed when the property
  is first read and stored in \<^verbatim>\<open>_code\<close>, which is \<^verbatim>\<open>None\<close> until then; reading it again
  returns the stored code.  For a name without underscores, with no whitespace other than
  spaces and at most one space, this is the code of the spec's wording, given that the
  upper case of the empty string is the empty string.
\<close>

theorem Region_code_derivation:
  assumes "Region_init kwargs = Inr r"
    and "dict_get kwargs ''code'' PNone = PNone"
    and "dict_get kwargs ''name'' PNone = PStr s"
  shows
    "(let s' = replace_char (CHR ''_'') (CHR '' '') s;
          code = (if CHR '' '' \<in> set s'
                  then (str_upper (take 1 (takeWhile (\<lambda>c. c \<noteq> CHR '' '') s'))
                        @ take 2 (drop 1 (takeWhile (\<lambda>c. c \<noteq> CHR '' '') s')))
                       @ (str_upper (take 1 (tl (dropWhile (\<lambda>c. c \<noteq> CHR '' '') s')))
                          @ take 2 (drop 1 (tl (dropWhile (\<lambda>c. c \<noteq> CHR '' '') s'))))
                  else str_upper (take 1 s') @ take 2 (drop 1 s'))
      in private_code r = PNone
       \<and> Region_code str_upper r = (Inr (PStr code), r\<lparr>private_code := PStr code\<rparr>)
       \<and> Region_code str_upper (r\<lparr>private_code := PStr code\<rparr>)
           = (Inr (PStr code), r\<lparr>private_code := PStr code\<rparr>)
       \<and> (str_upper [] = [] \<and> CHR ''_'' \<notin> set s
            \<and> (\<forall>c \<in> set s. is_space c \<longrightarrow> c = CHR '' '')
            \<and> count_list s (CHR '' '') \<le> 1 \<longrightarrow> code = spec_code str_upper s))"
proof -
  let ?s = "replace_char (CHR ''_'') (CHR '' '') s"
  let ?code = "if CHR '' '' \<in> set ?s
                  then abbreviate str_upper (takeWhile (\<lambda>c. c \<noteq> CHR '' '') ?s)
                       @ abbreviate str_upper (tl (dropWhile (\<lambda>c. c \<noteq> CHR '' '') ?s))
                  else abbreviate str_upper ?s"
  have n: "name r = PStr s" and c: "private_code r = PNone"
    using Region_init_fields [OF assms(1)] assms(2,3) by simp_all
  have 1: "Region_code str_upper r = (Inr (PStr ?code), r\<lparr>private_code := PStr ?code\<rparr>)"
    by (rule Region_code_value [OF c n])
  have 2: "Region_code str_upper (r\<lparr>private_code := PStr ?code\<rparr>)
             = (Inr (PStr ?code), r\<lparr>private_code := PStr ?code\<rparr>)"
    using Region_code_cached [of "r\<lparr>private_code := PStr ?code\<rparr>"] by simp
  have 4: "?code = spec_code str_upper s"
    if e: "str_upper [] = []" and u: "CHR ''_'' \<notin> set s"
      and w: "\<forall>c \<in> set s. is_space c \<longrightarrow> c = CHR '' ''"
      and k: "count_list s (CHR '' '') \<le> 1"
  proof -
    have sp: "is_space (CHR '' '')"
      by (simp add: is_space_def)
    show ?thesis
      unfolding replace_char_id [OF u] by (rule code_agrees_with_spec [where U = str_upper, OF w sp k e])
  qed
  from c 1 2 4 have "private_code r = PNone
       \<and> Region_code str_upper r = (Inr (PStr ?code), r\<lparr>private_code := PStr ?code\<rparr>)
       \<and> Region_code str_upper (r\<lparr>private_code := PStr ?code\<rparr>)
           = (Inr (PStr ?code), r\<lparr>private_code := PStr ?code\<rparr>)
       \<and> (str_upper [] = [] \<and> CHR ''_'' \<notin> set s
            \<and> (\<forall>c \<in> set s. is_space c \<longrightarrow> c = CHR '' '')
            \<and> count_list s (CHR '' '') \<le> 1 \<longrightarrow> ?code = spec_code str_upper s)"
    by blast
  then show ?thesis
    unfolding Let_def abbreviate_def .
qed

theorem Region_code_derivation_witness:
  "Region_init [(''name'', PStr ''north_sea coast'')]
     = Inr \<lparr>entities = [], name = PStr ''north_sea coast'', geom = PNone, private_code = PNone\<rparr>
   \<and> Region_code ascii_upper \<lparr>entities = [], name = PStr ''north_sea coast'', geom = PNone,
                   private_code = PNone\<rparr>
     = (Inr (PStr ''NorSea''),
        \<lparr>entities = [], name = PStr ''north_sea coast'', geom = PNone,
         private_code = PStr ''NorSea''\<rparr>)
   \<and> Region_code ascii_upper \<lparr>entities = [], name = PStr ''north_sea coast'', geom = PNone,
                   private_code = PStr ''NorSea''\<rparr>
     = (Inr (PStr ''NorSea''),
        \<lparr>entities = [], name = PStr ''north_sea coast'', geom = PNone,
         private_code = PStr ''NorSea''\<rparr>)"
proof -
  let ?k = "[(''name'', PStr ''north_sea coast'')]"
  let ?r = "\<lparr>entities = [], name = PStr ''north_sea coast'', geom = PNone, private_code = PNone\<rparr>"
  have i: "Region_init ?k = Inr ?r"
    by (simp add: Region_init_def add_entities_def iterate_def dict_get_def)
  have c: "dict_get ?k ''code'' PNone = PNone"
    and n: "dict_get ?k ''name'' PNone = PStr ''north_sea coast''"
    by (simp_all add: dict_get_def)
  show ?thesis
    using Region_code_derivation [where str_upper = ascii_upper, OF i c n] i
    by (simp add: Let_def replace_char_def ascii_upper_def upper_char_def)
qed

text \<open>
  C9 as the spec states it, for every segment of the name, fails: of the three segments
  of \<^verbatim>\<open>New South Wales\<close> the code has the first two only.
\<close>

theorem Region_code_three_segments_counterexample:
  "Region_init [(''name'', PStr ''New South Wales'')]
     = Inr \<lparr>entities = [], name = PStr ''New South Wales'', geom = PNone, private_code = PNone\<rparr>
   \<and> fst (Region_code ascii_upper \<lparr>entities = [], name = PStr ''New South Wales'', geom = PNone,
                        private_code = PNone\<rparr>) = Inr (PStr ''NewSou'')
   \<and> spec_code ascii_upper ''New South Wales'' = ''NewSouWal''"
  by (simp add: Region_init_def add_entities_def iterate_def dict_get_def Region_code_def
      Let_def split1_def replace_char_def abbreviate_def ascii_upper_def upper_char_def
      spec_code_def is_space_def)

end
